theory Spec2Isabelle
  imports Main "HOL-Library.Sublist"
begin

section \<open>Attempt throttle (lib/rateLimiter.ts)\<close>

text \<open>
  Numbers are modelled as \<^typ>\<open>int\<close> (every value the limiter computes is an integer
  number of milliseconds or a counter).  \<open>Date.now()\<close> is a read of an external clock:
  the world carries the sequence of its future readings (milliseconds since the epoch,
  hence natural numbers), and each call of \<open>Date.now()\<close> consumes the first one.  The
  readings are not assumed to be monotone.
\<close>

record RateLimitConfig =
  maxAttempts :: int
  windowMs :: int
  lockoutMs :: int

definition DEFAULT_CONFIG :: RateLimitConfig where
  "DEFAULT_CONFIG = \<lparr>maxAttempts = 5, windowMs = 15 * 60 * 1000, lockoutMs = 30 * 60 * 1000\<rparr>"

record entry =
  attempts :: int
  firstAttemptTime :: int
  lockedUntil :: "int option"

type_synonym RateLimitStore = "string \<rightharpoonup> entry"

record limiter =
  store :: RateLimitStore
  clock :: "nat \<Rightarrow> nat"

definition Date_now :: "limiter \<Rightarrow> int \<times> limiter" where
  "Date_now w = (int (clock w 0), w\<lparr>clock := (\<lambda>n. clock w (Suc n))\<rparr>)"

text \<open>
  The store is a plain object (\<open>store = {}\<close>), so \<open>this.store[identifier]\<close> finds, for
  an identifier with no entry of its own, what the object inherits from \<open>Object.prototype\<close>
  under that name: a function, or \<open>Object.prototype\<close> itself for \<open>__proto__\<close>.  Such a
  value is truthy and has no \<open>attempts\<close>, \<open>firstAttemptTime\<close> or \<open>lockedUntil\<close> of the
  limiter's making.  \<open>store\<close> holds the entries the limiter has put into the object
  (its own properties); \<open>store_get\<close> is the property read.
\<close>

definition object_prototype_keys :: "string list" where
  "object_prototype_keys =
     [''constructor'', ''__defineGetter__'', ''__defineSetter__'', ''hasOwnProperty'',
      ''__lookupGetter__'', ''__lookupSetter__'', ''isPrototypeOf'', ''propertyIsEnumerable'',
      ''toString'', ''valueOf'', ''__proto__'', ''toLocaleString'']"

datatype slot = Missing | Own entry | Inherited

definition store_get :: "limiter \<Rightarrow> string \<Rightarrow> slot" where
  "store_get w identifier =
     (case store w identifier of
        Some e \<Rightarrow> Own e
      | None \<Rightarrow> if identifier \<in> set object_prototype_keys then Inherited else Missing)"

text \<open>
  \<open>isLocked\<close>: \<open>entry.lockedUntil && ...\<close> is false without reading the clock when the
  field is undefined or \<open>0\<close> (both falsy).  The second test reads the clock again.  On an
  inherited value \<open>lockedUntil\<close> is undefined.
\<close>

definition isLocked :: "string \<Rightarrow> limiter \<Rightarrow> bool \<times> limiter" where
  "isLocked identifier w =
     (case store_get w identifier of
        Missing \<Rightarrow> (False, w)
      | Inherited \<Rightarrow> (False, w)
      | Own e \<Rightarrow>
          (case lockedUntil e of
             None \<Rightarrow> (False, w)
           | Some l \<Rightarrow>
               if l = 0 then (False, w)
               else
                 (let (t1, w1) = Date_now w in
                  if t1 < l then (True, w1)
                  else
                    (let (t2, w2) = Date_now w1 in
                     if t2 \<ge> l then (False, w2\<lparr>store := (store w2)(identifier := None)\<rparr>)
                     else (False, w2)))))"

definition getLockoutTimeRemaining :: "string \<Rightarrow> limiter \<Rightarrow> int \<times> limiter" where
  "getLockoutTimeRemaining identifier w =
     (case store_get w identifier of
        Missing \<Rightarrow> (0, w)
      | Inherited \<Rightarrow> (0, w)
      | Own e \<Rightarrow>
          (case lockedUntil e of
             None \<Rightarrow> (0, w)
           | Some l \<Rightarrow>
               if l = 0 then (0, w)
               else
                 (let (t, w1) = Date_now w;
                      remaining = l - t
                  in (if remaining > 0 then remaining else 0, w1))))"

record attempt_result =
  allowed :: bool
  remaining :: int

text \<open>
  \<open>recordAttempt\<close> reads \<open>entry = this.store[identifier]\<close> before it calls \<open>isLocked\<close>,
  which may delete the entry from the store.  The later \<open>entry.attempts++\<close> and
  \<open>entry.lockedUntil = ...\<close> mutate that object: they are visible in the store only if
  the object is still there (\<open>write_back\<close>).

  On an inherited value, \<open>!entry\<close> is false, \<open>now - entry.firstAttemptTime\<close> is \<open>NaN\<close> and
  not greater than the window, \<open>entry.attempts++\<close> leaves \<open>NaN\<close> in a property of the
  inherited value (not in the store), and \<open>NaN > maxAttempts\<close> is false: the call returns
  \<open>allowed = true\<close> and the store is as before.
\<close>

definition write_back :: "string \<Rightarrow> entry \<Rightarrow> limiter \<Rightarrow> limiter" where
  "write_back identifier e w =
     (case store w identifier of
        None \<Rightarrow> w
      | Some _ \<Rightarrow> w\<lparr>store := (store w)(identifier \<mapsto> e)\<rparr>)"

definition recordAttempt :: "RateLimitConfig \<Rightarrow> string \<Rightarrow> limiter \<Rightarrow> attempt_result \<times> limiter" where
  "recordAttempt config identifier w =
     (let (now, w0) = Date_now w;
          entry = store_get w0 identifier;
          (locked, w1) = isLocked identifier w0
      in if locked then
           (let (r, w2) = getLockoutTimeRemaining identifier w1
            in (\<lparr>allowed = False, remaining = r\<rparr>, w2))
         else
           (case entry of
              Missing \<Rightarrow>
                (\<lparr>allowed = True, remaining = 0\<rparr>,
                 w1\<lparr>store := (store w1)(identifier \<mapsto>
                       \<lparr>attempts = 1, firstAttemptTime = now, lockedUntil = None\<rparr>)\<rparr>)
            | Inherited \<Rightarrow> (\<lparr>allowed = True, remaining = 0\<rparr>, w1)
            | Own e \<Rightarrow>
                if now - firstAttemptTime e > windowMs config then
                  (\<lparr>allowed = True, remaining = 0\<rparr>,
                   w1\<lparr>store := (store w1)(identifier \<mapsto>
                         \<lparr>attempts = 1, firstAttemptTime = now, lockedUntil = None\<rparr>)\<rparr>)
                else
                  (let e1 = e\<lparr>attempts := attempts e + 1\<rparr> in
                   if attempts e1 > maxAttempts config then
                     (\<lparr>allowed = False, remaining = lockoutMs config\<rparr>,
                      write_back identifier (e1\<lparr>lockedUntil := Some (now + lockoutMs config)\<rparr>) w1)
                   else
                     (\<lparr>allowed = True, remaining = 0\<rparr>, write_back identifier e1 w1))))"

definition reset :: "string \<Rightarrow> limiter \<Rightarrow> limiter" where
  "reset identifier w = w\<lparr>store := (store w)(identifier := None)\<rparr>"

definition resetAll :: "limiter \<Rightarrow> limiter" where
  "resetAll w = w\<lparr>store := Map.empty\<rparr>"

text \<open>
  The callback that \<open>startCleanup\<close> schedules every hour (in the browser only): one read
  of the clock, then every entry older than twice the window is deleted.
\<close>

definition cleanup :: "RateLimitConfig \<Rightarrow> limiter \<Rightarrow> limiter" where
  "cleanup config w =
     (let (now, w1) = Date_now w
      in w1\<lparr>store := (\<lambda>key.
           case store w1 key of
             None \<Rightarrow> None
           | Some e \<Rightarrow>
               if now - firstAttemptTime e > windowMs config * 2 then None else Some e)\<rparr>)"

text \<open>
  \<open>n\<close> consecutive calls of \<open>recordAttempt\<close> for one identifier, with nothing else
  touching the store in between (no \<open>reset\<close>, no run of the hourly sweep); the results
  are in call order.
\<close>

fun recordAttempts :: "RateLimitConfig \<Rightarrow> nat \<Rightarrow> string \<Rightarrow> limiter \<Rightarrow> attempt_result list \<times> limiter" where
  "recordAttempts config 0 identifier w = ([], w)"
| "recordAttempts config (Suc n) identifier w =
     (let (r, w1) = recordAttempt config identifier w;
          (rs, w2) = recordAttempts config n identifier w1
      in (r # rs, w2))"


section \<open>Credential validator (lib/authService.ts)\<close>

text \<open>
  A JavaScript string is a sequence of code units; it is modelled as a \<^typ>\<open>string\<close>, whose
  characters are the code units below 256.  The regular expressions of the source are
  written as syntax trees and run by a derivative matcher: \<open>rx_match\<close> is the test of a
  pattern anchored at both ends (\<open>^...$\<close>), \<open>rx_test\<close> the test of an unanchored pattern
  (some substring matches).  \<open>\s\<close> is the whitespace class of JavaScript, cut to the code
  units of the model: tab, line feed, vertical tab, form feed, carriage return, space
  and no-break space.
\<close>

datatype cls_item = ClsChar char | ClsRange char char | ClsSpace

definition is_space :: "char \<Rightarrow> bool" where
  "is_space c = ((of_char c :: nat) \<in> {9, 10, 11, 12, 13, 32, 160})"

fun item_matches :: "cls_item \<Rightarrow> char \<Rightarrow> bool" where
  "item_matches (ClsChar a) c = (c = a)"
| "item_matches (ClsRange a b) c =
     ((of_char a :: nat) \<le> of_char c \<and> (of_char c :: nat) \<le> of_char b)"
| "item_matches ClsSpace c = is_space c"

datatype regex =
    Zero
  | One
  | Lit char
  | Cls "cls_item list"
  | NotCls "cls_item list"
  | Concat regex regex
  | Alt regex regex
  | Star regex

definition Plus :: "regex \<Rightarrow> regex" where
  "Plus r = Concat r (Star r)"

fun nullable :: "regex \<Rightarrow> bool" where
  "nullable Zero = False"
| "nullable One = True"
| "nullable (Lit a) = False"
| "nullable (Cls members) = False"
| "nullable (NotCls members) = False"
| "nullable (Concat r s) = (nullable r \<and> nullable s)"
| "nullable (Alt r s) = (nullable r \<or> nullable s)"
| "nullable (Star r) = True"

fun deriv :: "char \<Rightarrow> regex \<Rightarrow> regex" where
  "deriv c Zero = Zero"
| "deriv c One = Zero"
| "deriv c (Lit a) = (if c = a then One else Zero)"
| "deriv c (Cls members) = (if list_ex (\<lambda>i. item_matches i c) members then One else Zero)"
| "deriv c (NotCls members) = (if list_ex (\<lambda>i. item_matches i c) members then Zero else One)"
| "deriv c (Concat r s) =
     (if nullable r then Alt (Concat (deriv c r) s) (deriv c s) else Concat (deriv c r) s)"
| "deriv c (Alt r s) = Alt (deriv c r) (deriv c s)"
| "deriv c (Star r) = Concat (deriv c r) (Star r)"

definition rx_match :: "regex \<Rightarrow> string \<Rightarrow> bool" where
  "rx_match r s = nullable (foldl (\<lambda>r c. deriv c r) r s)"

definition rx_test :: "regex \<Rightarrow> string \<Rightarrow> bool" where
  "rx_test r s = list_ex (\<lambda>suf. list_ex (rx_match r) (prefixes suf)) (suffixes s)"

text \<open>\<^verbatim>\<open>/^[^\s@]+@[^\s@]+\.[^\s@]+$/\<close>\<close>

definition emailRegex :: regex where
  "emailRegex =
     Concat (Plus (NotCls [ClsSpace, ClsChar CHR ''@'']))
       (Concat (Lit CHR ''@'')
         (Concat (Plus (NotCls [ClsSpace, ClsChar CHR ''@'']))
           (Concat (Lit CHR ''.'') (Plus (NotCls [ClsSpace, ClsChar CHR ''@''])))))"

definition validateEmail :: "string \<Rightarrow> bool" where
  "validateEmail email = rx_match emailRegex email"

record password_check =
  valid :: bool
  message :: "string option"

definition validatePassword :: "string \<Rightarrow> password_check" where
  "validatePassword password =
     (if int (length password) < 8 then
        \<lparr>valid = False, message = Some ''Password must be at least 8 characters''\<rparr>
      else if \<not> rx_test (Cls [ClsRange CHR ''A'' CHR ''Z'']) password then
        \<lparr>valid = False, message = Some ''Password must contain at least one uppercase letter''\<rparr>
      else if \<not> rx_test (Cls [ClsRange CHR ''a'' CHR ''z'']) password then
        \<lparr>valid = False, message = Some ''Password must contain at least one lowercase letter''\<rparr>
      else if \<not> rx_test (Cls [ClsRange CHR ''0'' CHR ''9'']) password then
        \<lparr>valid = False, message = Some ''Password must contain at least one number''\<rparr>
      else \<lparr>valid = True, message = None\<rparr>)"

text \<open>
  The rules of the specification, in its own words, to compare \<open>validatePassword\<close> with:
  the character tests, the list of rules in their fixed order (length, uppercase,
  lowercase, digit), each with its message, and the message of the first rule that fails.
\<close>

definition contains_uppercase :: "string \<Rightarrow> bool" where
  "contains_uppercase p =
     list_ex (\<lambda>c. (of_char CHR ''A'' :: nat) \<le> of_char c \<and> (of_char c :: nat) \<le> of_char CHR ''Z'') p"

definition contains_lowercase :: "string \<Rightarrow> bool" where
  "contains_lowercase p =
     list_ex (\<lambda>c. (of_char CHR ''a'' :: nat) \<le> of_char c \<and> (of_char c :: nat) \<le> of_char CHR ''z'') p"

definition contains_digit :: "string \<Rightarrow> bool" where
  "contains_digit p =
     list_ex (\<lambda>c. (of_char CHR ''0'' :: nat) \<le> of_char c \<and> (of_char c :: nat) \<le> of_char CHR ''9'') p"

definition password_rules :: "((string \<Rightarrow> bool) \<times> string) list" where
  "password_rules =
     [(\<lambda>p. 8 \<le> length p, ''Password must be at least 8 characters''),
      (contains_uppercase, ''Password must contain at least one uppercase letter''),
      (contains_lowercase, ''Password must contain at least one lowercase letter''),
      (contains_digit, ''Password must contain at least one number'')]"

definition first_failing_rule :: "string \<Rightarrow> string option" where
  "first_failing_rule p = map_option snd (find (\<lambda>(ok, msg). \<not> ok p) password_rules)"

section \<open>Authentication service (lib/authService.ts)\<close>

datatype AuthErrorCode =
    INVALID_CREDENTIALS
  | USER_NOT_FOUND
  | USER_ALREADY_EXISTS
  | WEAK_PASSWORD
  | INVALID_EMAIL
  | RATE_LIMIT_EXCEEDED
  | SESSION_EXPIRED
  | NETWORK_ERROR
  | UNKNOWN_ERROR

text \<open>\<open>AuthError\<close>: the member \<open>message\<close> of the interface is the field \<open>errorMessage\<close>.\<close>

record AuthError =
  code :: AuthErrorCode
  errorMessage :: string
  details :: "string option"

text \<open>
  What a \<open>catch\<close> block of the service can receive: the error object of a provider reply,
  or an \<open>Error\<close> made by the service.  \<open>mapSupabaseError\<close> reads its \<open>message\<close> and, when
  that is empty, its \<open>toString()\<close>.
\<close>

record thrown =
  thrown_message :: string
  thrown_toString :: string

definition js_Error :: "string \<Rightarrow> thrown" where
  "js_Error m =
     \<lparr>thrown_message = m, thrown_toString = (if m = [] then ''Error'' else ''Error: '' @ m)\<rparr>"

text \<open>\<open>String.prototype.includes\<close>: some suffix of \<open>s\<close> starts with \<open>sub\<close>.\<close>

definition str_includes :: "string \<Rightarrow> string \<Rightarrow> bool" where
  "str_includes s sub = list_ex (prefix sub) (suffixes s)"

definition mapSupabaseError :: "thrown \<Rightarrow> AuthError" where
  "mapSupabaseError err =
     (let msg =
            (if thrown_message err \<noteq> [] then thrown_message err
             else if thrown_toString err \<noteq> [] then thrown_toString err
             else ''An unknown error occurred'')
      in if str_includes msg ''Invalid login credentials'' then
           \<lparr>code = INVALID_CREDENTIALS, errorMessage = ''Invalid email or password'',
            details = None\<rparr>
         else if str_includes msg ''Email not confirmed'' then
           \<lparr>code = INVALID_CREDENTIALS,
            errorMessage = ''Please verify your email address before logging in'',
            details = None\<rparr>
         else if str_includes msg ''User already registered'' then
           \<lparr>code = USER_ALREADY_EXISTS, errorMessage = ''This email is already registered'',
            details = None\<rparr>
         else if str_includes msg ''Password'' then
           \<lparr>code = WEAK_PASSWORD,
            errorMessage = ''Password does not meet security requirements'', details = None\<rparr>
         else if str_includes msg ''Network'' then
           \<lparr>code = NETWORK_ERROR,
            errorMessage = ''Network error. Please check your connection.'', details = None\<rparr>
         else \<lparr>code = UNKNOWN_ERROR, errorMessage = msg, details = None\<rparr>)"

text \<open>
  The provider's user and session objects, with the members the service reads.  A member
  that may be missing is an option; \<open>x || d\<close> on a string takes \<open>d\<close> when \<open>x\<close> is missing
  or empty (\<open>or_default\<close>, \<open>or_null\<close>).
\<close>

record SupabaseUser =
  su_id :: string
  su_email :: "string option"
  su_full_name :: "string option"
  su_avatar_url :: "string option"
  su_provider :: "string option"
  su_created_at :: string
  su_updated_at :: string

record SupabaseSession =
  access_token :: string
  refresh_token :: "string option"

definition or_null :: "string option \<Rightarrow> string option" where
  "or_null x = (case x of None \<Rightarrow> None | Some v \<Rightarrow> if v = [] then None else Some v)"

definition or_default :: "string option \<Rightarrow> string \<Rightarrow> string" where
  "or_default x d = (case or_null x of None \<Rightarrow> d | Some v \<Rightarrow> v)"

text \<open>
  \<open>User\<close>, with the members \<open>mapSupabaseUserToUser\<close> sets, each under the prefix
  \<open>user_\<close> (the interface's further profile members are not set on this path).
\<close>

record User =
  user_id :: string
  user_email :: string
  user_fullName :: "string option"
  user_avatar :: "string option"
  user_provider :: string
  user_createdAt :: string
  user_updatedAt :: string

definition mapSupabaseUserToUser :: "SupabaseUser \<Rightarrow> User" where
  "mapSupabaseUserToUser supabaseUser =
     \<lparr>user_id = su_id supabaseUser,
      user_email = or_default (su_email supabaseUser) [],
      user_fullName = or_null (su_full_name supabaseUser),
      user_avatar = or_null (su_avatar_url supabaseUser),
      user_provider = or_default (su_provider supabaseUser) ''email'',
      user_createdAt = su_created_at supabaseUser,
      user_updatedAt = su_updated_at supabaseUser\<rparr>"

text \<open>
  The identity provider is outside the program.  Its answers are a parameter: what each
  endpoint replies to given arguments (\<open>auth_reply\<close> is \<open>{data: {user, session}, error}\<close>;
  a rejected promise reaches the same \<open>catch\<close> as a reply with an error and is the same
  case).  The browser state records every call made to the provider, in order.
\<close>

record auth_reply =
  reply_user :: "SupabaseUser option"
  reply_session :: "SupabaseSession option"
  reply_error :: "thrown option"

record identity_provider =
  signInWithPassword :: "string \<Rightarrow> string \<Rightarrow> auth_reply"
  signUp :: "string \<Rightarrow> string \<Rightarrow> string \<Rightarrow> string \<Rightarrow> auth_reply"
  signOut :: "thrown option"
  resetPasswordForEmail :: "string \<Rightarrow> string \<Rightarrow> thrown option"

datatype provider_call =
    SignInWithPassword string string
  | SignUp string string string string
  | SignOut
  | ResetPasswordForEmail string string

text \<open>
  The state outside the React tree: the \<open>rateLimiter\<close> singleton with the clock it reads,
  the log of provider calls, \<open>window.location.origin\<close> (\<open>None\<close> when \<open>window\<close> is
  undefined) and the two web storages.
\<close>

record browser =
  rl :: limiter
  calls :: "provider_call list"
  window_origin :: "string option"
  sessionStorage :: "string \<rightharpoonup> string"
  localStorage :: "string \<rightharpoonup> string"

text \<open>Decimal text of an integer, as a template literal prints it.\<close>

fun show_nat :: "nat \<Rightarrow> string" where
  "show_nat n =
     (if n < 10 then [''0123456789'' ! n]
      else show_nat (n div 10) @ [''0123456789'' ! (n mod 10)])"

declare show_nat.simps [simp del]

definition show_int :: "int \<Rightarrow> string" where
  "show_int i = (if i < 0 then ''-'' @ show_nat (nat (- i)) else show_nat (nat i))"

text \<open>\<open>Math.ceil(x / 1000)\<close> on an integer \<open>x\<close>.\<close>

definition ceil_div_1000 :: "int \<Rightarrow> int" where
  "ceil_div_1000 x = - ((- x) div 1000)"

record LoginResult =
  result_user :: User
  accessToken :: string
  refreshToken :: string

definition loginWithEmail ::
  "identity_provider \<Rightarrow> string \<Rightarrow> string \<Rightarrow> browser \<Rightarrow> (AuthError + LoginResult) \<times> browser" where
  "loginWithEmail P email password w =
     (if email = [] \<or> password = [] then
        (Inl \<lparr>code = INVALID_CREDENTIALS, errorMessage = ''Email and password are required'',
              details = None\<rparr>, w)
      else if \<not> validateEmail email then
        (Inl \<lparr>code = INVALID_EMAIL, errorMessage = ''Please enter a valid email address'',
              details = None\<rparr>, w)
      else
        (let (rateLimitResult, l1) = recordAttempt DEFAULT_CONFIG email (rl w);
             w1 = w\<lparr>rl := l1\<rparr>
         in if \<not> allowed rateLimitResult then
              (let remainingSeconds = ceil_div_1000 (remaining rateLimitResult)
               in (Inl \<lparr>code = RATE_LIMIT_EXCEEDED,
                        errorMessage = ''Too many login attempts. Try again in '' @
                          show_int remainingSeconds @ '' seconds.'',
                        details = Some (''Locked for '' @ show_int remainingSeconds @
                          '' seconds'')\<rparr>, w1))
            else
              (let reply = signInWithPassword P email password;
                   w2 = w1\<lparr>calls := calls w1 @ [SignInWithPassword email password]\<rparr>
               in case reply_error reply of
                    Some err \<Rightarrow> (Inl (mapSupabaseError err), w2)
                  | None \<Rightarrow>
                      (case (reply_user reply, reply_session reply) of
                         (Some u, Some sess) \<Rightarrow>
                           (Inr \<lparr>result_user = mapSupabaseUserToUser u,
                                 accessToken = access_token sess,
                                 refreshToken = or_default (refresh_token sess) []\<rparr>,
                            w2\<lparr>rl := reset email (rl w2)\<rparr>)
                       | _ \<Rightarrow>
                           (Inl (mapSupabaseError
                                  (js_Error ''No user or session returned from auth'')), w2)))))"

text \<open>\<open>String.prototype.trim\<close>: whitespace is removed at both ends.\<close>

definition trim :: "string \<Rightarrow> string" where
  "trim s = rev (dropWhile is_space (rev (dropWhile is_space s)))"

definition signUpWithEmail ::
  "identity_provider \<Rightarrow> string \<Rightarrow> string \<Rightarrow> string \<Rightarrow> browser \<Rightarrow>
     (AuthError + LoginResult) \<times> browser" where
  "signUpWithEmail P email password fullName w =
     (if email = [] \<or> password = [] \<or> fullName = [] then
        (Inl \<lparr>code = INVALID_CREDENTIALS, errorMessage = ''All fields are required'',
              details = None\<rparr>, w)
      else if \<not> validateEmail email then
        (Inl \<lparr>code = INVALID_EMAIL, errorMessage = ''Please enter a valid email address'',
              details = None\<rparr>, w)
      else
        (let passwordValidation = validatePassword password
         in if \<not> valid passwordValidation then
              (Inl \<lparr>code = WEAK_PASSWORD,
                    errorMessage = or_default (message passwordValidation) ''Password is too weak'',
                    details = None\<rparr>, w)
            else if int (length (trim fullName)) < 2 then
              (Inl \<lparr>code = INVALID_CREDENTIALS,
                    errorMessage = ''Full name must be at least 2 characters'',
                    details = None\<rparr>, w)
            else
              (let appUrl = (case window_origin w of
                               Some origin \<Rightarrow> origin
                             | None \<Rightarrow> ''http://localhost:3000'');
                   redirect = appUrl @ ''/auth/confirm-email'';
                   reply = signUp P email password fullName redirect;
                   w1 = w\<lparr>calls := calls w @ [SignUp email password fullName redirect]\<rparr>
               in case reply_error reply of
                    Some err \<Rightarrow> (Inl (mapSupabaseError err), w1)
                  | None \<Rightarrow>
                      (case reply_user reply of
                         None \<Rightarrow>
                           (Inl (mapSupabaseError (js_Error ''No user returned from signup'')), w1)
                       | Some u \<Rightarrow>
                           (Inr \<lparr>result_user = mapSupabaseUserToUser u,
                                 accessToken =
                                   or_default (map_option access_token (reply_session reply)) [],
                                 refreshToken =
                                   or_default (Option.bind (reply_session reply) refresh_token) []\<rparr>,
                            w1)))))"

definition logout :: "identity_provider \<Rightarrow> browser \<Rightarrow> (AuthError + unit) \<times> browser" where
  "logout P w =
     (let w1 = w\<lparr>calls := calls w @ [SignOut]\<rparr>
      in case signOut P of
           Some err \<Rightarrow> (Inl (mapSupabaseError err), w1)
         | None \<Rightarrow>
             (case window_origin w1 of
                None \<Rightarrow> (Inr (), w1)
              | Some _ \<Rightarrow>
                  (Inr (),
                   w1\<lparr>sessionStorage := (sessionStorage w1)(''sb-auth-session'' := None),
                      localStorage := (localStorage w1)(''sb-auth-token'' := None)\<rparr>)))"

definition requestPasswordReset ::
  "identity_provider \<Rightarrow> string \<Rightarrow> browser \<Rightarrow> (AuthError + unit) \<times> browser" where
  "requestPasswordReset P email w =
     (if email = [] then
        (Inl \<lparr>code = INVALID_EMAIL, errorMessage = ''Email is required'', details = None\<rparr>, w)
      else if \<not> validateEmail email then
        (Inl \<lparr>code = INVALID_EMAIL, errorMessage = ''Please enter a valid email address'',
              details = None\<rparr>, w)
      else
        (let redirect = (case window_origin w of Some origin \<Rightarrow> origin | None \<Rightarrow> []) @
                          ''/auth/reset-password'';
             w1 = w\<lparr>calls := calls w @ [ResetPasswordForEmail email redirect]\<rparr>
         in case resetPasswordForEmail P email redirect of
              Some err \<Rightarrow> (Inl (mapSupabaseError err), w1)
            | None \<Rightarrow> (Inr (), w1)))"

section \<open>Auth orchestrator (context/AuthContext.tsx, \<open>AuthProvider\<close>)\<close>

text \<open>
  The four React state cells of \<open>AuthProvider\<close>, and its handlers.  A handler returns
  \<open>Inl err\<close> when the source rethrows \<open>err\<close> to its caller, with the state and the browser
  as the handler leaves them (the \<open>finally\<close> block included).
\<close>

record Session =
  session_user :: "User option"
  session_accessToken :: "string option"
  session_refreshToken :: "string option"
  expiresAt :: "int option"

record AuthState =
  user :: "User option"
  session :: "Session option"
  loading :: bool
  error :: "AuthError option"

definition login ::
  "identity_provider \<Rightarrow> string \<Rightarrow> string \<Rightarrow> AuthState \<Rightarrow> browser \<Rightarrow>
     (AuthError + unit) \<times> AuthState \<times> browser" where
  "login P email password st w =
     (let st1 = st\<lparr>loading := True, error := None\<rparr>;
          (r, w1) = loginWithEmail P email password w
      in case r of
           Inr result \<Rightarrow>
             (let (now, l2) = Date_now (rl w1)
              in (Inr (),
                  st1\<lparr>user := Some (result_user result),
                      session := Some \<lparr>session_user = Some (result_user result),
                                       session_accessToken = Some (accessToken result),
                                       session_refreshToken = Some (refreshToken result),
                                       expiresAt = Some (now + 60 * 60 * 1000)\<rparr>,
                      loading := False\<rparr>,
                  w1\<lparr>rl := l2\<rparr>))
         | Inl err \<Rightarrow> (Inl err, st1\<lparr>error := Some err, loading := False\<rparr>, w1))"

definition signUp_handler ::
  "identity_provider \<Rightarrow> string \<Rightarrow> string \<Rightarrow> string \<Rightarrow> AuthState \<Rightarrow> browser \<Rightarrow>
     (AuthError + unit) \<times> AuthState \<times> browser" where
  "signUp_handler P email password fullName st w =
     (let st1 = st\<lparr>loading := True, error := None\<rparr>;
          (r, w1) = signUpWithEmail P email password fullName w
      in case r of
           Inr _ \<Rightarrow> (Inr (), st1\<lparr>loading := False\<rparr>, w1)
         | Inl err \<Rightarrow> (Inl err, st1\<lparr>error := Some err, loading := False\<rparr>, w1))"

definition logoutHandler ::
  "identity_provider \<Rightarrow> AuthState \<Rightarrow> browser \<Rightarrow> (AuthError + unit) \<times> AuthState \<times> browser" where
  "logoutHandler P st w =
     (let st1 = st\<lparr>loading := True, error := None\<rparr>;
          (r, w1) = logout P w
      in case r of
           Inr _ \<Rightarrow> (Inr (), st1\<lparr>user := None, session := None, loading := False\<rparr>, w1)
         | Inl err \<Rightarrow> (Inl err, st1\<lparr>error := Some err, loading := False\<rparr>, w1))"

definition resetPassword ::
  "identity_provider \<Rightarrow> string \<Rightarrow> AuthState \<Rightarrow> browser \<Rightarrow>
     (AuthError + unit) \<times> AuthState \<times> browser" where
  "resetPassword P email st w =
     (let st1 = st\<lparr>loading := True, error := None\<rparr>;
          (r, w1) = requestPasswordReset P email w
      in case r of
           Inr _ \<Rightarrow> (Inr (), st1\<lparr>loading := False\<rparr>, w1)
         | Inl err \<Rightarrow> (Inl err, st1\<lparr>error := Some err, loading := False\<rparr>, w1))"

definition clearError :: "AuthState \<Rightarrow> AuthState" where
  "clearError st = st\<lparr>error := None\<rparr>"

section \<open>Onboarding service (lib/onboardingService.ts)\<close>

text \<open>
  The persisted profile store is outside the program.  Its \<open>users\<close> table has the user
  id as primary key and is modelled as a map from ids to rows; a column that may be null
  is an option.  Every request to the store takes a \<open>fault\<close>, chosen by the environment:
  the request is served (\<open>NoFault\<close>), it comes back with an error object (\<open>Fails\<close>), or
  the awaited call throws (\<open>Throws\<close>, with the message of the thrown \<open>Error\<close>, if it is
  one).  A request that is not served leaves the table as it was.
\<close>

record user_row =
  col_id :: string
  col_display_name :: "string option"
  col_bio :: "string option"
  col_school :: "string option"
  col_program :: "string option"
  col_avatar_url :: "string option"
  col_onboarding_completed :: "bool option"
  col_updated_at :: "string option"
  col_created_at :: "string option"

type_synonym users_table = "string \<rightharpoonup> user_row"

record db_error =
  err_code :: string
  err_message :: string

datatype fault = NoFault | Fails db_error | Throws "string option"

datatype 'a reply = Data 'a | Error db_error | Thrown "string option"

text \<open>
  \<open>from("users").select(...).eq("id", userId).single()\<close>: the row of that id; with no row,
  the error \<open>PGRST116\<close>.
\<close>

definition select_single :: "fault \<Rightarrow> users_table \<Rightarrow> string \<Rightarrow> user_row reply" where
  "select_single f tbl userId =
     (case f of
        Throws m \<Rightarrow> Thrown m
      | Fails e \<Rightarrow> Error e
      | NoFault \<Rightarrow>
          (case tbl userId of
             None \<Rightarrow> Error \<lparr>err_code = ''PGRST116'',
                             err_message = ''JSON object requested, multiple (or no) rows returned''\<rparr>
           | Some r \<Rightarrow> Data r))"

text \<open>
  \<open>from("users").update(payload).eq("id", userId)\<close>: the columns of the payload overwrite
  those of the row of that id, the other columns stay (here \<open>created_at\<close>, which the
  payload of \<open>completeOnboarding\<close> does not have).
\<close>

definition apply_update :: "user_row \<Rightarrow> user_row \<Rightarrow> user_row" where
  "apply_update payload r =
     r\<lparr>col_id := col_id payload,
       col_display_name := col_display_name payload,
       col_bio := col_bio payload,
       col_school := col_school payload,
       col_program := col_program payload,
       col_avatar_url := col_avatar_url payload,
       col_onboarding_completed := col_onboarding_completed payload,
       col_updated_at := col_updated_at payload\<rparr>"

definition db_update ::
  "fault \<Rightarrow> users_table \<Rightarrow> string \<Rightarrow> user_row \<Rightarrow> unit reply \<times> users_table" where
  "db_update f tbl userId payload =
     (case f of
        Throws m \<Rightarrow> (Thrown m, tbl)
      | Fails e \<Rightarrow> (Error e, tbl)
      | NoFault \<Rightarrow>
          (case tbl userId of
             None \<Rightarrow> (Data (), tbl)
           | Some r \<Rightarrow>
               (Data (), tbl(userId \<mapsto> apply_update payload r))))"

text \<open>\<open>from("users").insert([row])\<close>: refused when the primary key is taken.\<close>

definition db_insert :: "fault \<Rightarrow> users_table \<Rightarrow> user_row \<Rightarrow> unit reply \<times> users_table" where
  "db_insert f tbl row =
     (case f of
        Throws m \<Rightarrow> (Thrown m, tbl)
      | Fails e \<Rightarrow> (Error e, tbl)
      | NoFault \<Rightarrow>
          (case tbl (col_id row) of
             Some _ \<Rightarrow> (Error \<lparr>err_code = ''23505'',
                                err_message = ''duplicate key value violates unique constraint''\<rparr>,
                        tbl)
           | None \<Rightarrow> (Data (), tbl(col_id row \<mapsto> row))))"

datatype avatar_kind = AvatarCustom | AvatarMale | AvatarFemale

datatype gender_kind = GenderMale | GenderFemale

record OnboardingData =
  displayName :: string
  bio :: string
  school :: string
  program :: string
  profilePicture :: string
  avatarType :: avatar_kind
  gender :: "gender_kind option"

definition hasCompletedOnboarding :: "fault \<Rightarrow> string \<Rightarrow> users_table \<Rightarrow> bool" where
  "hasCompletedOnboarding f userId tbl =
     (case select_single f tbl userId of
        Error _ \<Rightarrow> False
      | Thrown _ \<Rightarrow> False
      | Data r \<Rightarrow> (case col_onboarding_completed r of Some b \<Rightarrow> b | None \<Rightarrow> False))"

definition getUserProfile :: "fault \<Rightarrow> string \<Rightarrow> users_table \<Rightarrow> user_row option" where
  "getUserProfile f userId tbl =
     (case select_single f tbl userId of
        Error e \<Rightarrow> (if err_code e = ''PGRST116'' then None else None)
      | Thrown _ \<Rightarrow> None
      | Data r \<Rightarrow> Some r)"

record onboarding_result =
  success :: bool
  result_error :: "string option"

text \<open>
  \<open>completeOnboarding\<close>: \<open>f_read\<close> is the fault of the read inside \<open>getUserProfile\<close>,
  \<open>f_write\<close> that of the update or insert; \<open>now1\<close> and \<open>now2\<close> are the texts of the two
  \<open>new Date().toISOString()\<close>.  The \<open>catch\<close> block takes the message of a thrown \<open>Error\<close>,
  and "Unknown error occurred" for anything else thrown.
\<close>

definition completeOnboarding ::
  "fault \<Rightarrow> fault \<Rightarrow> string \<Rightarrow> string \<Rightarrow> string \<Rightarrow> OnboardingData \<Rightarrow> users_table \<Rightarrow>
     onboarding_result \<times> users_table" where
  "completeOnboarding f_read f_write now1 now2 userId data tbl =
     (let existingProfile = getUserProfile f_read userId tbl;
          profileData =
            \<lparr>col_id = userId,
             col_display_name = Some (displayName data),
             col_bio = Some (bio data),
             col_school = Some (school data),
             col_program = Some (program data),
             col_avatar_url = Some (profilePicture data),
             col_onboarding_completed = Some True,
             col_updated_at = Some now1,
             col_created_at = None\<rparr>;
          caught = (\<lambda>m. \<lparr>success = False,
                           result_error = Some (case m of Some msg \<Rightarrow> msg
                                                 | None \<Rightarrow> ''Unknown error occurred'')\<rparr>)
      in case existingProfile of
           Some _ \<Rightarrow>
             (case db_update f_write tbl userId profileData of
                (Error e, tbl1) \<Rightarrow>
                  (\<lparr>success = False,
                    result_error = Some (or_default (Some (err_message e))
                                           ''Failed to update profile'')\<rparr>, tbl1)
              | (Thrown m, tbl1) \<Rightarrow> (caught m, tbl1)
              | (Data _, tbl1) \<Rightarrow> (\<lparr>success = True, result_error = None\<rparr>, tbl1))
         | None \<Rightarrow>
             (case db_insert f_write tbl (profileData\<lparr>col_created_at := Some now2\<rparr>) of
                (Error e, tbl1) \<Rightarrow>
                  (\<lparr>success = False,
                    result_error = Some (or_default (Some (err_message e))
                                           ''Failed to create profile'')\<rparr>, tbl1)
              | (Thrown m, tbl1) \<Rightarrow> (caught m, tbl1)
              | (Data _, tbl1) \<Rightarrow> (\<lparr>success = True, result_error = None\<rparr>, tbl1)))"

text \<open>
  The writes this program makes to the \<open>users\<close> table are those of \<open>completeOnboarding\<close>.
  \<open>run_calls\<close> runs a sequence of such calls and collects, in order, the user ids of the
  calls that returned \<open>success = true\<close>.
\<close>

datatype users_call = CompleteOnboarding fault fault string string string OnboardingData

fun run_calls :: "users_call list \<Rightarrow> users_table \<times> string list \<Rightarrow> users_table \<times> string list" where
  "run_calls [] s = s"
| "run_calls (CompleteOnboarding f_read f_write now1 now2 userId data # cs) (tbl, completed) =
     (let (res, tbl1) = completeOnboarding f_read f_write now1 now2 userId data tbl
      in run_calls cs (tbl1, if success res then completed @ [userId] else completed))"

text \<open>
  The persisted completion flag of a user id: there is a row and its
  \<open>onboarding_completed\<close> column is true.
\<close>

definition flag_set :: "users_table \<Rightarrow> string \<Rightarrow> bool" where
  "flag_set tbl u =
     (case tbl u of None \<Rightarrow> False | Some r \<Rightarrow> col_onboarding_completed r = Some True)"

section \<open>Listing creation (app/api/listings/route.ts, \<open>POST\<close>)\<close>

text \<open>
  The handler talks to three outside services: the identity provider (\<open>auth.getUser\<close>),
  object storage and the relational store.  Their answers are a parameter (\<open>backend\<close>);
  the tables the handler writes, \<open>items\<close> and \<open>item_images\<close>, and the uploaded objects are
  the state.  A write that the store answers with an error leaves the table as it was; an
  insert that is served adds its rows, a delete that is served removes the row.  The id
  of a new item is chosen by the store.  \<open>parseFloat\<close> produces a floating-point number
  and is a parameter, with the type of prices.  Besides the response and the new state,
  the model returns the writes the request made to the two tables, in order, each with
  its outcome.  A response is its status and its body: the \<open>error\<close> text, or the \<open>data\<close>
  member of the success body (whose other members are constants).
\<close>

record image_file =
  file_name :: string
  file_type :: string

record listing_form =
  form_title :: "string option"
  form_description :: "string option"
  form_price :: "string option"
  form_category :: "string option"
  form_condition :: "string option"
  form_status :: "string option"
  form_images :: "image_file list"

text \<open>
  A request: the \<open>Authorization\<close> header, if any, and what \<open>request.formData()\<close> gives
  (\<open>Inl\<close> the message of the error it throws on a body that is not form data).
\<close>

record request =
  authorization :: "string option"
  form_data :: "string + listing_form"

text \<open>
  \<open>conditionMap\<close>, \<open>statusMap\<close> and \<open>categoryNameMap\<close> are plain objects: a lookup under
  a name inherited from \<open>Object.prototype\<close> gives the inherited member (\<open>Member\<close>), which
  is truthy and not a string.  Such a value then goes where the string would: into the
  inserted row, into the category query and into the text of the error message.
\<close>

datatype js_value = Str string | Member string

record 'p item_row =
  item_title :: string
  item_description :: string
  item_price :: 'p
  item_condition :: js_value
  item_status :: js_value
  item_user_id :: string
  item_category_id :: nat
  item_school :: string

record 'p listings_db =
  items :: "nat \<rightharpoonup> 'p item_row"
  item_images :: "(nat \<times> string) list"
  objects :: "string list"

datatype upload_outcome = UploadError "string option" | Uploaded string

record insert_error =
  ie_message :: "string option"
  ie_json :: string

text \<open>
  \<open>get_user\<close>: the id of the token's user (\<open>None\<close> for an auth error or no user).
  \<open>school_reply\<close>: the \<open>school\<close> column of the user's row, or the error of the query.
  \<open>upload_reply\<close>: for the \<open>k\<close>-th image, the error of the upload or the public URL of
  the stored object (its name is made from the clock and a random number).
  \<open>category_reply\<close>: the id of the category of that name (\<open>None\<close> for an error or no
  row); \<open>all_categories\<close>: the names the second query lists.  \<open>member_text\<close>: the text a
  template literal prints for the member inherited under a name.
\<close>

record backend =
  get_user :: "string \<Rightarrow> string option"
  school_reply :: "string \<Rightarrow> db_error + string option"
  upload_reply :: "nat \<Rightarrow> image_file \<Rightarrow> upload_outcome"
  category_reply :: "js_value \<Rightarrow> nat option"
  all_categories :: "string list option"
  member_text :: "string \<Rightarrow> string"
  item_insert_reply :: "insert_error + nat"
  images_insert_fails :: bool
  delete_fails :: bool

datatype db_write =
    ItemInsert "nat option"
  | ImagesInsert nat bool
  | ItemDelete nat bool

record 'p listing_result =
  created_id :: nat
  created_title :: string
  created_description :: string
  created_price :: 'p
  created_category :: string
  created_condition :: string
  created_status :: string
  created_userId :: string
  created_images :: "string list"

datatype 'p body = ErrorBody string | Created "'p listing_result"

record 'p response =
  resp_status :: nat
  resp_body :: "'p body"

definition json_error :: "nat \<Rightarrow> string \<Rightarrow> 'p response" where
  "json_error st msg = \<lparr>resp_status = st, resp_body = ErrorBody msg\<rparr>"

text \<open>The \<open>catch\<close> block of the handler, for a thrown \<open>Error\<close> with message \<open>msg\<close>.\<close>

definition on_throw :: "string \<Rightarrow> 'p response" where
  "on_throw msg =
     (if msg = ''Unauthorized: No valid session'' then json_error 401 ''Unauthorized''
      else json_error 500 msg)"

text \<open>\<open>table[key] || key\<close>\<close>

definition lookup_or_self :: "(string \<times> string) list \<Rightarrow> string \<Rightarrow> js_value" where
  "lookup_or_self table key =
     (case or_null (map_of table key) of
        Some v \<Rightarrow> Str v
      | None \<Rightarrow> if key \<in> set object_prototype_keys then Member key else Str key)"

definition value_text :: "backend \<Rightarrow> js_value \<Rightarrow> string" where
  "value_text env v = (case v of Str t \<Rightarrow> t | Member k \<Rightarrow> member_text env k)"

definition conditionMap :: "(string \<times> string) list" where
  "conditionMap =
     [(''Brand New'', ''new''), (''Like New'', ''like_new''), (''Good'', ''good''),
      (''Fair'', ''fair'')]"

definition statusMap :: "(string \<times> string) list" where
  "statusMap = [(''Available'', ''available''), (''Reserved'', ''reserved''), (''Sold'', ''sold'')]"

definition categoryNameMap :: "(string \<times> string) list" where
  "categoryNameMap =
     [(''essentials'', ''School Essentials''), (''clothing'', ''Thrift & Clothing''),
      (''gadgets'', ''Gadgets''), (''food'', ''Food & Snacks''), (''dorm'', ''Dorm/Boarding''),
      (''services'', ''Services'')]"

text \<open>\<open>Array.prototype.join(", ")\<close>\<close>

fun join_comma :: "string list \<Rightarrow> string" where
  "join_comma [] = []"
| "join_comma [x] = x"
| "join_comma (x # y # ys) = x @ '', '' @ join_comma (y # ys)"

text \<open>
  The upload loop: the images are uploaded in order; the first upload error is thrown (the
  objects uploaded before it stay in storage).
\<close>

fun upload_images ::
  "backend \<Rightarrow> nat \<Rightarrow> image_file list \<Rightarrow> 'p listings_db \<Rightarrow> (string + string list) \<times> 'p listings_db" where
  "upload_images env k [] db = (Inr [], db)"
| "upload_images env k (img # imgs) db =
     (case upload_reply env k img of
        UploadError m \<Rightarrow>
          (Inl (''Failed to upload image: '' @ or_default m ''Unknown error''), db)
      | Uploaded publicUrl \<Rightarrow>
          (case upload_images env (Suc k) imgs (db\<lparr>objects := objects db @ [publicUrl]\<rparr>) of
             (Inl msg, db1) \<Rightarrow> (Inl msg, db1)
           | (Inr urls, db1) \<Rightarrow> (Inr (publicUrl # urls), db1)))"

definition POST ::
  "(string \<Rightarrow> 'p) \<Rightarrow> backend \<Rightarrow> request \<Rightarrow> 'p listings_db \<Rightarrow>
     'p response \<times> 'p listings_db \<times> db_write list" where
  "POST parseFloat env req db =
     (case authorization req of
        None \<Rightarrow> (json_error 401 ''Unauthorized'', db, [])
      | Some authHeader \<Rightarrow>
          if \<not> prefix ''Bearer '' authHeader then (json_error 401 ''Unauthorized'', db, [])
          else
            (case get_user env (drop 7 authHeader) of
               None \<Rightarrow> (json_error 401 ''Unauthorized'', db, [])
             | Some uid \<Rightarrow>
                 (case (case school_reply env uid of Inl _ \<Rightarrow> None | Inr s \<Rightarrow> or_null s) of
                    None \<Rightarrow>
                      (json_error 400 ''User school not found. Please complete your profile.'',
                       db, [])
                  | Some userSchool \<Rightarrow>
                      (case form_data req of
                         Inl msg \<Rightarrow> (on_throw msg, db, [])
                       | Inr fm \<Rightarrow>
                           (case (or_null (form_title fm), or_null (form_description fm),
                                  or_null (form_price fm), or_null (form_category fm),
                                  or_null (form_condition fm), or_null (form_status fm)) of
                              (Some title, Some description, Some price, Some category,
                               Some condition, Some status) \<Rightarrow>
                                if form_images fm = [] then
                                  (json_error 400 ''At least one image is required'', db, [])
                                else
                                  (case upload_images env 0 (form_images fm) db of
                                     (Inl msg, db1) \<Rightarrow> (on_throw msg, db1, [])
                                   | (Inr imageUrls, db1) \<Rightarrow>
                                       (let dbCategoryName = lookup_or_self categoryNameMap category
                                        in case category_reply env dbCategoryName of
                                             None \<Rightarrow>
                                               (on_throw (''Category not found: '' @
                                                  value_text env dbCategoryName @
                                                  ''. Available categories: '' @
                                                  (case all_categories env of
                                                     None \<Rightarrow> ''undefined''
                                                   | Some names \<Rightarrow> join_comma names)),
                                                db1, [])
                                           | Some categoryId \<Rightarrow>
                                               (case item_insert_reply env of
                                                  Inl itemError \<Rightarrow>
                                                    (on_throw (''Failed to create item: '' @
                                                       or_default (ie_message itemError)
                                                         (ie_json itemError)),
                                                     db1, [ItemInsert None])
                                                | Inr itemId \<Rightarrow>
                                                    (let db2 = db1\<lparr>items := (items db1)(itemId \<mapsto>
                                                           \<lparr>item_title = title,
                                                            item_description = description,
                                                            item_price = parseFloat price,
                                                            item_condition =
                                                              lookup_or_self conditionMap condition,
                                                            item_status =
                                                              lookup_or_self statusMap status,
                                                            item_user_id = uid,
                                                            item_category_id = categoryId,
                                                            item_school = userSchool\<rparr>)\<rparr>
                                                     in if images_insert_fails env then
                                                          (on_throw ''Failed to save images'',
                                                           (if delete_fails env then db2
                                                            else db2\<lparr>items := (items db2)(itemId := None)\<rparr>),
                                                           [ItemInsert (Some itemId),
                                                            ImagesInsert itemId False,
                                                            ItemDelete itemId (\<not> delete_fails env)])
                                                        else
                                                          (\<lparr>resp_status = 200,
                                                            resp_body = Created
                                                              \<lparr>created_id = itemId,
                                                               created_title = title,
                                                               created_description = description,
                                                               created_price = parseFloat price,
                                                               created_category = category,
                                                               created_condition = condition,
                                                               created_status = status,
                                                               created_userId = uid,
                                                               created_images = imageUrls\<rparr>\<rparr>,
                                                           db2\<lparr>item_images := item_images db2 @
                                                                 map (\<lambda>url. (itemId, url)) imageUrls\<rparr>,
                                                           [ItemInsert (Some itemId),
                                                            ImagesInsert itemId True])))))
                            | _ \<Rightarrow> (json_error 400 ''Missing required fields'', db, []))))))"

section \<open>Example data\<close>

text \<open>Concrete provider answers and states, used to run the model on examples.\<close>

definition example_user :: SupabaseUser where
  "example_user =
     \<lparr>su_id = ''u1'', su_email = Some ''a@b.co'', su_full_name = Some ''Ann Bee'',
      su_avatar_url = None, su_provider = None, su_created_at = ''2024-01-01'',
      su_updated_at = ''2024-01-02''\<rparr>"

definition example_provider :: "thrown option \<Rightarrow> identity_provider" where
  "example_provider sign_out_reply =
     \<lparr>signInWithPassword = (\<lambda>e p.
        \<lparr>reply_user = Some example_user,
         reply_session = Some \<lparr>access_token = ''at'', refresh_token = Some ''rt''\<rparr>,
         reply_error = None\<rparr>),
      signUp = (\<lambda>e p f r.
        \<lparr>reply_user = None, reply_session = None,
         reply_error = Some (js_Error ''User already registered'')\<rparr>),
      signOut = sign_out_reply,
      resetPasswordForEmail = (\<lambda>e r. Some (js_Error ''Network request failed''))\<rparr>"

definition example_browser :: "RateLimitStore \<Rightarrow> browser" where
  "example_browser s =
     \<lparr>rl = \<lparr>store = s, clock = (\<lambda>n. 2000 + n mod 7)\<rparr>, calls = [],
      window_origin = Some ''https://camply.test'', sessionStorage = Map.empty,
      localStorage = Map.empty\<rparr>"

definition signed_out :: AuthState where
  "signed_out = \<lparr>user = None, session = None, loading = False, error = None\<rparr>"

definition signed_in :: AuthState where
  "signed_in =
     \<lparr>user = Some (mapSupabaseUserToUser example_user),
      session = Some \<lparr>session_user = Some (mapSupabaseUserToUser example_user),
                      session_accessToken = Some ''at'', session_refreshToken = Some ''rt'',
                      expiresAt = Some 3602001\<rparr>,
      loading = False, error = None\<rparr>"

definition example_profile :: OnboardingData where
  "example_profile =
     \<lparr>displayName = ''Ann'', bio = ''CS student'', school = ''University of Cebu'',
      program = ''BSCS'', profilePicture = ''https://img.test/ann.png'',
      avatarType = AvatarCustom, gender = None\<rparr>"

definition example_backend :: "bool \<Rightarrow> bool \<Rightarrow> backend" where
  "example_backend images_fail delete_fail =
     \<lparr>get_user = (\<lambda>token. if token = ''tok'' then Some ''u1'' else None),
      school_reply = (\<lambda>uid. Inr (Some ''University of Cebu'')),
      upload_reply = (\<lambda>k img. Uploaded (''https://cdn.test/'' @ file_name img)),
      category_reply = (\<lambda>name. if name = Str ''Gadgets'' then Some 3 else None),
      all_categories = Some [''Gadgets'', ''Services''],
      member_text = (\<lambda>k. ''function '' @ k @ ''() { [native code] }''),
      item_insert_reply = Inr 7,
      images_insert_fails = images_fail,
      delete_fails = delete_fail\<rparr>"

definition example_request :: request where
  "example_request =
     \<lparr>authorization = Some ''Bearer tok'',
      form_data = Inr
        \<lparr>form_title = Some ''Calculator'', form_description = Some ''Scientific calculator'',
         form_price = Some ''350'', form_category = Some ''gadgets'',
         form_condition = Some ''Like New'', form_status = Some ''Available'',
         form_images = [\<lparr>file_name = ''calc.png'', file_type = ''image/png''\<rparr>]\<rparr>\<rparr>"

definition empty_db :: "string listings_db" where
  "empty_db = \<lparr>items = Map.empty, item_images = [], objects = []\<rparr>"


section \<open>Properties of the attempt throttle\<close>

lemma store_get_clock [simp]: "store_get (w\<lparr>clock := c\<rparr>) identifier = store_get w identifier"
  by (simp add: store_get_def)

lemma store_get_Own: "store w identifier = Some e \<Longrightarrow> store_get w identifier = Own e"
  by (simp add: store_get_def)

lemma store_get_Missing:
  "store w identifier = None \<Longrightarrow> identifier \<notin> set object_prototype_keys \<Longrightarrow>
     store_get w identifier = Missing"
  by (simp add: store_get_def)


lemma recordAttempt_locked_step:
  assumes "store w identifier = Some e" and "lockedUntil e = Some l"
    and "int (clock w (Suc 0)) < l"
  shows "recordAttempt config identifier w =
           (\<lparr>allowed = False,
             remaining = (if l - int (clock w 2) > 0 then l - int (clock w 2) else 0)\<rparr>,
            w\<lparr>clock := (\<lambda>n. clock w (n + 3))\<rparr>)"
proof -
  from assms(3) have "l \<noteq> 0" by auto
  with assms show ?thesis
    by (simp add: recordAttempt_def isLocked_def getLockoutTimeRemaining_def Date_now_def
        store_get_Own Let_def numeral_2_eq_2 numeral_3_eq_3)
qed

lemma recordAttempt_first:
  assumes "store w identifier = None" and "identifier \<notin> set object_prototype_keys"
  shows "recordAttempt config identifier w =
     (\<lparr>allowed = True, remaining = 0\<rparr>,
      \<lparr>store = (store w)(identifier \<mapsto>
          \<lparr>attempts = 1, firstAttemptTime = int (clock w 0), lockedUntil = None\<rparr>),
       clock = (\<lambda>n. clock w (Suc n))\<rparr>)"
  using assms
  by (simp add: recordAttempt_def isLocked_def Date_now_def store_get_Missing Let_def)



lemma recordAttempt_in_window:
  assumes "store w identifier = Some e" and "lockedUntil e = None"
    and "int (clock w 0) - firstAttemptTime e \<le> windowMs config"
  shows "recordAttempt config identifier w =
     (if attempts e + 1 > maxAttempts config then
        (\<lparr>allowed = False, remaining = lockoutMs config\<rparr>,
         \<lparr>store = (store w)(identifier \<mapsto>
            e\<lparr>attempts := attempts e + 1,
              lockedUntil := Some (int (clock w 0) + lockoutMs config)\<rparr>),
          clock = (\<lambda>n. clock w (Suc n))\<rparr>)
      else
        (\<lparr>allowed = True, remaining = 0\<rparr>,
         \<lparr>store = (store w)(identifier \<mapsto> e\<lparr>attempts := attempts e + 1\<rparr>),
          clock = (\<lambda>n. clock w (Suc n))\<rparr>))"
  using assms
  by (simp add: recordAttempt_def isLocked_def Date_now_def store_get_Own Let_def
      write_back_def)

text \<open>
  An identifier with no record that is not a name inherited from \<open>Object.prototype\<close>: six
  consecutive calls of \<open>recordAttempt\<close> under the default configuration, each at a clock
  reading at most \<open>windowMs\<close> (15 minutes) after the first one.  The first five return
  \<open>allowed = true\<close> (with \<open>remaining = 0\<close>); the sixth returns \<open>allowed = false\<close> with
  \<open>remaining = 1800000\<close> ms, the full lockout duration, and stores
  \<open>lockedUntil = now + 30 minutes\<close>, \<open>now\<close> being the reading of the sixth call.
\<close>

lemma recordAttempts_sixth_locks:
  assumes "store w identifier = None" and "identifier \<notin> set object_prototype_keys"
    and "\<forall>i<6. int (clock w i) - int (clock w 0) \<le> windowMs DEFAULT_CONFIG"
  shows "fst (recordAttempts DEFAULT_CONFIG 6 identifier w) =
           replicate 5 \<lparr>allowed = True, remaining = 0\<rparr> @
           [\<lparr>allowed = False, remaining = 1800000\<rparr>] \<and>
         store (snd (recordAttempts DEFAULT_CONFIG 6 identifier w)) identifier =
           Some \<lparr>attempts = 6, firstAttemptTime = int (clock w 0),
                 lockedUntil = Some (int (clock w 5) + 30 * 60 * 1000)\<rparr>"
proof -
  have c: "int (clock w 1) - int (clock w 0) \<le> 900000"
      "int (clock w 2) - int (clock w 0) \<le> 900000"
      "int (clock w 3) - int (clock w 0) \<le> 900000"
      "int (clock w 4) - int (clock w 0) \<le> 900000"
      "int (clock w 5) - int (clock w 0) \<le> 900000"
    using assms(3) by (simp_all add: DEFAULT_CONFIG_def)
  show ?thesis
    using assms(1,2) c
    by (simp add: numeral_eq_Suc recordAttempt_first recordAttempt_in_window
        DEFAULT_CONFIG_def)
qed

lemma email_not_prototype_key:
  "''a@b.com'' \<notin> set object_prototype_keys" "''a@b.co'' \<notin> set object_prototype_keys"
  by (simp_all add: object_prototype_keys_def)

lemma recordAttempts_sixth_locks_example:
  "fst (recordAttempts DEFAULT_CONFIG 6 ''a@b.com''
          \<lparr>store = Map.empty, clock = (\<lambda>n. 1000 + 60000 * n)\<rparr>) =
     replicate 5 \<lparr>allowed = True, remaining = 0\<rparr> @
     [\<lparr>allowed = False, remaining = 1800000\<rparr>] \<and>
   store (snd (recordAttempts DEFAULT_CONFIG 6 ''a@b.com''
          \<lparr>store = Map.empty, clock = (\<lambda>n. 1000 + 60000 * n)\<rparr>)) ''a@b.com'' =
     Some \<lparr>attempts = 6, firstAttemptTime = 1000, lockedUntil = Some 2101000\<rparr>"
proof -
  have "\<forall>i<6. int (clock \<lparr>store = Map.empty, clock = (\<lambda>n. 1000 + 60000 * n)\<rparr> i)
          - int (clock \<lparr>store = Map.empty, clock = (\<lambda>n. 1000 + 60000 * n)\<rparr> 0)
          \<le> windowMs DEFAULT_CONFIG"
    by (simp add: DEFAULT_CONFIG_def)
  then show ?thesis
    using recordAttempts_sixth_locks
      [of "\<lparr>store = Map.empty, clock = (\<lambda>n. 1000 + 60000 * n)\<rparr>" "''a@b.com''"]
      email_not_prototype_key
    by simp
qed


lemma recordAttempts_locked:
  assumes "store w identifier = Some e" and "lockedUntil e = Some l"
    and "\<forall>k. int (clock w k) < l"
  shows "map allowed (fst (recordAttempts config n identifier w)) = replicate n False \<and>
         store (snd (recordAttempts config n identifier w)) = store w"
  using assms
proof (induction n arbitrary: w)
  case 0
  then show ?case by simp
next
  case (Suc n)
  let ?w1 = "w\<lparr>clock := (\<lambda>n. clock w (n + 3))\<rparr>"
  from Suc.prems have step: "recordAttempt config identifier w =
           (\<lparr>allowed = False,
             remaining = (if l - int (clock w 2) > 0 then l - int (clock w 2) else 0)\<rparr>, ?w1)"
    by (intro recordAttempt_locked_step) auto
  have "store ?w1 identifier = Some e" "\<forall>k. int (clock ?w1 k) < l"
    using Suc.prems by simp_all
  with Suc.IH [of ?w1] Suc.prems(2)
  have IH: "map allowed (fst (recordAttempts config n identifier ?w1)) = replicate n False \<and>
         store (snd (recordAttempts config n identifier ?w1)) = store ?w1"
    by blast
  show ?case
    using IH by (simp add: step case_prod_beta)
qed

text \<open>
  C3.  An identifier whose record has a lockout expiry \<open>l\<close> that every reading of the clock
  stays strictly below (the identifier is locked, and the calls happen before the expiry):
  each of any number \<open>n\<close> of further \<open>recordAttempt\<close> calls returns \<open>allowed = false\<close>, and
  the stored record, with its attempt count, is the one before the calls.
\<close>

theorem recordAttempt_locked_no_increment:
  assumes "store w identifier = Some e" and "lockedUntil e = Some l"
    and "\<forall>k. int (clock w k) < l"
  shows "map allowed (fst (recordAttempts config n identifier w)) = replicate n False \<and>
         store (snd (recordAttempts config n identifier w)) identifier = Some e \<and>
         map_option attempts (store (snd (recordAttempts config n identifier w)) identifier)
           = Some (attempts e)"
  using recordAttempts_locked [OF assms, of config n] assms(1) by simp

theorem recordAttempt_locked_no_increment_witness:
  "map allowed (fst (recordAttempts DEFAULT_CONFIG 3 ''a@b.com''
      \<lparr>store = [''a@b.com'' \<mapsto> \<lparr>attempts = 6, firstAttemptTime = 1000, lockedUntil = Some 5000\<rparr>],
       clock = (\<lambda>n. 2000 + n mod 7)\<rparr>)) = [False, False, False] \<and>
   map_option attempts (store (snd (recordAttempts DEFAULT_CONFIG 3 ''a@b.com''
      \<lparr>store = [''a@b.com'' \<mapsto> \<lparr>attempts = 6, firstAttemptTime = 1000, lockedUntil = Some 5000\<rparr>],
       clock = (\<lambda>n. 2000 + n mod 7)\<rparr>)) ''a@b.com'') = Some 6"
proof -
  have "\<forall>k. int (clock \<lparr>store = [''a@b.com'' \<mapsto>
            \<lparr>attempts = 6, firstAttemptTime = 1000, lockedUntil = Some 5000\<rparr>],
          clock = (\<lambda>n. 2000 + n mod 7)\<rparr> k) < 5000"
  proof
    fix k :: nat
    have "k mod 7 < 7" by simp
    then show "int (clock \<lparr>store = [''a@b.com'' \<mapsto>
            \<lparr>attempts = 6, firstAttemptTime = 1000, lockedUntil = Some 5000\<rparr>],
          clock = (\<lambda>n. 2000 + n mod 7)\<rparr> k) < 5000"
      by simp
  qed
  then show ?thesis
    using recordAttempt_locked_no_increment
      [of "\<lparr>store = [''a@b.com'' \<mapsto>
            \<lparr>attempts = 6, firstAttemptTime = 1000, lockedUntil = Some 5000\<rparr>],
          clock = (\<lambda>n. 2000 + n mod 7)\<rparr>" "''a@b.com''"
          "\<lparr>attempts = 6, firstAttemptTime = 1000, lockedUntil = Some 5000\<rparr>" 5000
          DEFAULT_CONFIG 3]
    by (simp add: numeral_3_eq_3)
qed

text \<open>
  C10.  In every throttle state and for every identifier and configuration: a result of
  \<open>recordAttempt\<close> with \<open>allowed = true\<close> has \<open>remaining = 0\<close>; a result with a strictly
  positive \<open>remaining\<close> has \<open>allowed = false\<close>, and it comes either from the branch taken
  when \<open>isLocked\<close> answers true or from the call that sets the lockout, where it is the
  configured lockout duration.
\<close>

theorem recordAttempt_allowed_remaining_zero:
  "(allowed (fst (recordAttempt config identifier w)) \<longrightarrow>
      remaining (fst (recordAttempt config identifier w)) = 0) \<and>
   (0 < remaining (fst (recordAttempt config identifier w)) \<longrightarrow>
      \<not> allowed (fst (recordAttempt config identifier w)) \<and>
      (fst (isLocked identifier (snd (Date_now w))) \<or>
       remaining (fst (recordAttempt config identifier w)) = lockoutMs config))"
  by (auto simp: recordAttempt_def Let_def
      split: prod.splits option.splits slot.splits if_splits)

theorem recordAttempt_allowed_remaining_zero_witness:
  "allowed (fst (recordAttempt DEFAULT_CONFIG ''a@b.com''
      \<lparr>store = Map.empty, clock = (\<lambda>n. 1000)\<rparr>)) \<and>
   remaining (fst (recordAttempt DEFAULT_CONFIG ''a@b.com''
      \<lparr>store = Map.empty, clock = (\<lambda>n. 1000)\<rparr>)) = 0 \<and>
   0 < remaining (fst (recordAttempt DEFAULT_CONFIG ''a@b.com''
      \<lparr>store = [''a@b.com'' \<mapsto> \<lparr>attempts = 6, firstAttemptTime = 1000, lockedUntil = Some 5000\<rparr>],
       clock = (\<lambda>n. 2000)\<rparr>)) \<and>
   \<not> allowed (fst (recordAttempt DEFAULT_CONFIG ''a@b.com''
      \<lparr>store = [''a@b.com'' \<mapsto> \<lparr>attempts = 6, firstAttemptTime = 1000, lockedUntil = Some 5000\<rparr>],
       clock = (\<lambda>n. 2000)\<rparr>))"
proof -
  have a: "allowed (fst (recordAttempt DEFAULT_CONFIG ''a@b.com''
      \<lparr>store = Map.empty, clock = (\<lambda>n. 1000)\<rparr>))"
    by (simp add: recordAttempt_first email_not_prototype_key)
  have b: "0 < remaining (fst (recordAttempt DEFAULT_CONFIG ''a@b.com''
      \<lparr>store = [''a@b.com'' \<mapsto> \<lparr>attempts = 6, firstAttemptTime = 1000, lockedUntil = Some 5000\<rparr>],
       clock = (\<lambda>n. 2000)\<rparr>))"
    by (simp add: recordAttempt_locked_step
        [where e = "\<lparr>attempts = 6, firstAttemptTime = 1000, lockedUntil = Some 5000\<rparr>" and l = 5000])
  show ?thesis
    using a b
      recordAttempt_allowed_remaining_zero [of DEFAULT_CONFIG "''a@b.com''"
        "\<lparr>store = Map.empty, clock = (\<lambda>n. 1000)\<rparr>"]
      recordAttempt_allowed_remaining_zero [of DEFAULT_CONFIG "''a@b.com''"
        "\<lparr>store = [''a@b.com'' \<mapsto>
            \<lparr>attempts = 6, firstAttemptTime = 1000, lockedUntil = Some 5000\<rparr>],
          clock = (\<lambda>n. 2000)\<rparr>"]
    by blast
qed


section \<open>Properties of the credential validator\<close>

lemma foldl_deriv_Zero [simp]: "foldl (\<lambda>r c. deriv c r) Zero s = Zero"
  by (induction s) auto

lemma rx_match_Cls:
  "rx_match (Cls members) s = (\<exists>c. s = [c] \<and> list_ex (\<lambda>i. item_matches i c) members)"
  by (cases s; cases "tl s") (auto simp: rx_match_def)

lemma rx_test_Cls:
  "rx_test (Cls members) s = (\<exists>c \<in> set s. list_ex (\<lambda>i. item_matches i c) members)"
proof -
  have "rx_test (Cls members) s =
        (\<exists>suf. suffix suf s \<and> (\<exists>c. prefix [c] suf \<and> list_ex (\<lambda>i. item_matches i c) members))"
    unfolding rx_test_def list_ex_iff rx_match_Cls in_set_suffixes in_set_prefixes Bex_def
    by blast
  also have "\<dots> = (\<exists>c \<in> set s. list_ex (\<lambda>i. item_matches i c) members)"
  proof
    assume "\<exists>suf. suffix suf s \<and>
              (\<exists>c. prefix [c] suf \<and> list_ex (\<lambda>i. item_matches i c) members)"
    then obtain suf c where "suffix suf s" "prefix [c] suf"
      and ok: "list_ex (\<lambda>i. item_matches i c) members"
      by blast
    then have "c \<in> set s" by (auto simp: suffix_def prefix_def)
    with ok show "\<exists>c \<in> set s. list_ex (\<lambda>i. item_matches i c) members" by blast
  next
    assume "\<exists>c \<in> set s. list_ex (\<lambda>i. item_matches i c) members"
    then obtain c where "c \<in> set s" and ok: "list_ex (\<lambda>i. item_matches i c) members"
      by blast
    then obtain xs ys where "s = xs @ c # ys" by (auto simp: in_set_conv_decomp)
    then have "suffix (c # ys) s" "prefix [c] (c # ys)" by (auto simp: suffix_def)
    with ok show "\<exists>suf. suffix suf s \<and>
              (\<exists>c. prefix [c] suf \<and> list_ex (\<lambda>i. item_matches i c) members)"
      by blast
  qed
  finally show ?thesis .
qed

lemma rx_test_range:
  "rx_test (Cls [ClsRange a b]) s =
     list_ex (\<lambda>c. (of_char a :: nat) \<le> of_char c \<and> (of_char c :: nat) \<le> of_char b) s"
  by (simp add: rx_test_Cls list_ex_iff)

text \<open>
  C4.  For every password \<open>p\<close>: \<open>validatePassword p\<close> is valid exactly when \<open>p\<close> has
  at least 8 code units and contains an uppercase letter (\<open>A\<close>-\<open>Z\<close>), a lowercase letter
  (\<open>a\<close>-\<open>z\<close>) and a digit (\<open>0\<close>-\<open>9\<close>); the result is valid with no message when no rule fails,
  and otherwise invalid with the message of the first failing rule in the order length,
  uppercase, lowercase, digit; \<open>validatePassword "abc12345"\<close> fails with the uppercase
  message, and \<open>validatePassword "MyPassword123"\<close> is valid.
\<close>

theorem validatePassword_rules:
  "valid (validatePassword p) =
     (8 \<le> length p \<and> contains_uppercase p \<and> contains_lowercase p \<and> contains_digit p) \<and>
   validatePassword p =
     (case first_failing_rule p of
        None \<Rightarrow> \<lparr>valid = True, message = None\<rparr>
      | Some msg \<Rightarrow> \<lparr>valid = False, message = Some msg\<rparr>) \<and>
   validatePassword ''abc12345'' =
     \<lparr>valid = False, message = Some ''Password must contain at least one uppercase letter''\<rparr> \<and>
   validatePassword ''MyPassword123'' = \<lparr>valid = True, message = None\<rparr>"
proof -
  have general: "valid (validatePassword q) =
     (8 \<le> length q \<and> contains_uppercase q \<and> contains_lowercase q \<and> contains_digit q) \<and>
   validatePassword q =
     (case first_failing_rule q of
        None \<Rightarrow> \<lparr>valid = True, message = None\<rparr>
      | Some msg \<Rightarrow> \<lparr>valid = False, message = Some msg\<rparr>)" for q
    by (simp add: validatePassword_def rx_test_range contains_uppercase_def
        contains_lowercase_def contains_digit_def first_failing_rule_def password_rules_def)
  have ex1: "validatePassword ''abc12345'' =
     \<lparr>valid = False, message = Some ''Password must contain at least one uppercase letter''\<rparr>"
    by (simp add: validatePassword_def rx_test_range)
  have ex2: "validatePassword ''MyPassword123'' = \<lparr>valid = True, message = None\<rparr>"
    by (simp add: validatePassword_def rx_test_range)
  from general [of p] ex1 ex2 show ?thesis by blast
qed

section \<open>Properties of the authentication service and the orchestrator\<close>

lemmas example_defs = example_user_def example_provider_def example_browser_def
  signed_out_def signed_in_def

lemma validateEmail_example: "validateEmail ''a@b.co''"
  by (simp add: validateEmail_def emailRegex_def rx_match_def Plus_def is_space_def)

lemma validateEmail_bad: "\<not> validateEmail ''bad''"
  by (simp add: validateEmail_def emailRegex_def rx_match_def Plus_def is_space_def)

text \<open>
  An identifier that \<open>loginWithEmail\<close> passes to the throttle has passed \<open>validateEmail\<close>,
  so it is never a name inherited from \<open>Object.prototype\<close>.
\<close>

lemma validateEmail_not_prototype_key:
  "validateEmail email \<Longrightarrow> email \<notin> set object_prototype_keys"
  by (auto simp: object_prototype_keys_def validateEmail_def emailRegex_def rx_match_def
      Plus_def is_space_def)

lemma login_example:
  "login (example_provider so) ''a@b.co'' ''pw'' signed_out (example_browser Map.empty) =
     (Inr (), signed_in,
      \<lparr>rl = \<lparr>store = Map.empty, clock = (\<lambda>n. 2000 + (Suc (Suc n)) mod 7)\<rparr>,
       calls = [SignInWithPassword ''a@b.co'' ''pw''],
       window_origin = Some ''https://camply.test'', sessionStorage = Map.empty,
       localStorage = Map.empty\<rparr>)"
  by (simp add: login_def loginWithEmail_def example_defs recordAttempt_first
      email_not_prototype_key Date_now_def
      reset_def mapSupabaseUserToUser_def or_default_def or_null_def validateEmail_example)

lemma mapSupabaseError_network:
  "mapSupabaseError (js_Error ''Network request failed'') =
     \<lparr>code = NETWORK_ERROR, errorMessage = ''Network error. Please check your connection.'',
      details = None\<rparr>"
  by (simp add: mapSupabaseError_def js_Error_def str_includes_def)

lemma mapSupabaseError_registered:
  "mapSupabaseError (js_Error ''User already registered'') =
     \<lparr>code = USER_ALREADY_EXISTS, errorMessage = ''This email is already registered'',
      details = None\<rparr>"
  by (simp add: mapSupabaseError_def js_Error_def str_includes_def)

text \<open>
  C5.  \<open>loginWithEmail\<close>, and the orchestrator's \<open>login\<close> that calls it: when the email or
  the password is empty the call fails with "Email and password are required" (code
  \<open>INVALID_CREDENTIALS\<close>); when the email does not match the pattern it fails with
  \<open>INVALID_EMAIL\<close>; when the throttle refuses the identifier it fails with
  \<open>RATE_LIMIT_EXCEEDED\<close> and the retry time in seconds, \<open>remaining\<close> divided by 1000 and
  rounded up.  In each of these cases the log of provider calls is what it was before
  the call: the credential exchange is not invoked.  The throttle refuses in particular
  an identifier whose record has a lockout expiry that the clock has not reached.
\<close>

theorem loginWithEmail_rejects_before_provider:
  "(email = [] \<or> password = [] \<longrightarrow>
      loginWithEmail P email password w =
        (Inl \<lparr>code = INVALID_CREDENTIALS, errorMessage = ''Email and password are required'',
              details = None\<rparr>, w)) \<and>
   (email \<noteq> [] \<and> password \<noteq> [] \<and> \<not> validateEmail email \<longrightarrow>
      loginWithEmail P email password w =
        (Inl \<lparr>code = INVALID_EMAIL, errorMessage = ''Please enter a valid email address'',
              details = None\<rparr>, w)) \<and>
   (email \<noteq> [] \<and> password \<noteq> [] \<and> validateEmail email \<and>
    \<not> allowed (fst (recordAttempt DEFAULT_CONFIG email (rl w))) \<longrightarrow>
      loginWithEmail P email password w =
        (Inl \<lparr>code = RATE_LIMIT_EXCEEDED,
              errorMessage = ''Too many login attempts. Try again in '' @
                show_int (ceil_div_1000
                  (remaining (fst (recordAttempt DEFAULT_CONFIG email (rl w))))) @
                '' seconds.'',
              details = Some (''Locked for '' @
                show_int (ceil_div_1000
                  (remaining (fst (recordAttempt DEFAULT_CONFIG email (rl w))))) @
                '' seconds'')\<rparr>,
         w\<lparr>rl := snd (recordAttempt DEFAULT_CONFIG email (rl w))\<rparr>)) \<and>
   (email = [] \<or> password = [] \<or> \<not> validateEmail email \<or>
    \<not> allowed (fst (recordAttempt DEFAULT_CONFIG email (rl w))) \<longrightarrow>
      calls (snd (loginWithEmail P email password w)) = calls w \<and>
      isl (fst (loginWithEmail P email password w)) \<and>
      fst (login P email password st w) =
        Inl (projl (fst (loginWithEmail P email password w))) \<and>
      calls (snd (snd (login P email password st w))) = calls w) \<and>
   (email \<noteq> [] \<and> password \<noteq> [] \<and> validateEmail email \<and>
    store (rl w) email = Some e \<and> lockedUntil e = Some l \<and>
    int (clock (rl w) (Suc 0)) < l \<longrightarrow>
      isl (fst (loginWithEmail P email password w)) \<and>
      code (projl (fst (loginWithEmail P email password w))) = RATE_LIMIT_EXCEEDED \<and>
      calls (snd (loginWithEmail P email password w)) = calls w)"
proof -
  have locked: "\<not> allowed (fst (recordAttempt DEFAULT_CONFIG email (rl w)))"
    if "store (rl w) email = Some e" "lockedUntil e = Some l" "int (clock (rl w) (Suc 0)) < l"
    using recordAttempt_locked_step [OF that, of DEFAULT_CONFIG] by simp
  show ?thesis
    using locked
    by (auto simp: loginWithEmail_def login_def Let_def case_prod_beta split: sum.splits)
qed

theorem loginWithEmail_rejects_before_provider_witness:
  "loginWithEmail (example_provider None) [] ''pw'' (example_browser Map.empty) =
     (Inl \<lparr>code = INVALID_CREDENTIALS, errorMessage = ''Email and password are required'',
           details = None\<rparr>, example_browser Map.empty) \<and>
   loginWithEmail (example_provider None) ''bad'' ''pw'' (example_browser Map.empty) =
     (Inl \<lparr>code = INVALID_EMAIL, errorMessage = ''Please enter a valid email address'',
           details = None\<rparr>, example_browser Map.empty) \<and>
   fst (loginWithEmail (example_provider None) ''a@b.co'' ''pw''
     (example_browser [''a@b.co'' \<mapsto>
        \<lparr>attempts = 6, firstAttemptTime = 1000, lockedUntil = Some 5000\<rparr>])) =
     Inl \<lparr>code = RATE_LIMIT_EXCEEDED,
          errorMessage = ''Too many login attempts. Try again in 3 seconds.'',
          details = Some ''Locked for 3 seconds''\<rparr> \<and>
   calls (snd (loginWithEmail (example_provider None) ''a@b.co'' ''pw''
     (example_browser [''a@b.co'' \<mapsto>
        \<lparr>attempts = 6, firstAttemptTime = 1000, lockedUntil = Some 5000\<rparr>]))) = [] \<and>
   calls (snd (snd (login (example_provider None) ''a@b.co'' ''pw'' signed_out
     (example_browser [''a@b.co'' \<mapsto>
        \<lparr>attempts = 6, firstAttemptTime = 1000, lockedUntil = Some 5000\<rparr>])))) = []"
proof -
  let ?e = "\<lparr>attempts = 6, firstAttemptTime = 1000, lockedUntil = Some 5000\<rparr>"
  let ?w = "example_browser [''a@b.co'' \<mapsto> ?e]"
  have r: "recordAttempt DEFAULT_CONFIG ''a@b.co'' (rl ?w) =
      (\<lparr>allowed = False, remaining = 2998\<rparr>,
       \<lparr>store = [''a@b.co'' \<mapsto> ?e], clock = (\<lambda>n. 2000 + (n + 3) mod 7)\<rparr>)"
    by (simp add: example_browser_def recordAttempt_locked_step [where e = ?e and l = 5000])
  have s: "show_int (ceil_div_1000 2998) = ''3''"
    by (simp add: show_int_def ceil_div_1000_def show_nat.simps)
  have c: "calls ?w = []" by (simp add: example_browser_def)
  show ?thesis
    using loginWithEmail_rejects_before_provider
        [of "[]" "''pw''" "example_provider None" "example_browser Map.empty" signed_out]
      loginWithEmail_rejects_before_provider
        [of "''bad''" "''pw''" "example_provider None" "example_browser Map.empty" signed_out]
      loginWithEmail_rejects_before_provider
        [of "''a@b.co''" "''pw''" "example_provider None" ?w signed_out]
    by (simp add: validateEmail_bad validateEmail_example r s c)
qed

text \<open>
  C6.  Each of the orchestrator's \<open>login\<close>, \<open>signUp\<close>, \<open>logout\<close> and \<open>resetPassword\<close>:
  when the operation fails with an error \<open>err\<close> (the handler rethrows it), the shared
  error state is \<open>err\<close> and the User and Session states are the ones from before the
  operation.
\<close>

theorem handler_failure_sets_error_keeps_session:
  "(fst (login P email password st w) = Inl err \<longrightarrow>
      error (fst (snd (login P email password st w))) = Some err \<and>
      user (fst (snd (login P email password st w))) = user st \<and>
      session (fst (snd (login P email password st w))) = session st) \<and>
   (fst (signUp_handler P email password fullName st w) = Inl err \<longrightarrow>
      error (fst (snd (signUp_handler P email password fullName st w))) = Some err \<and>
      user (fst (snd (signUp_handler P email password fullName st w))) = user st \<and>
      session (fst (snd (signUp_handler P email password fullName st w))) = session st) \<and>
   (fst (logoutHandler P st w) = Inl err \<longrightarrow>
      error (fst (snd (logoutHandler P st w))) = Some err \<and>
      user (fst (snd (logoutHandler P st w))) = user st \<and>
      session (fst (snd (logoutHandler P st w))) = session st) \<and>
   (fst (resetPassword P email st w) = Inl err \<longrightarrow>
      error (fst (snd (resetPassword P email st w))) = Some err \<and>
      user (fst (snd (resetPassword P email st w))) = user st \<and>
      session (fst (snd (resetPassword P email st w))) = session st)"
  by (auto simp: login_def signUp_handler_def logoutHandler_def resetPassword_def Let_def
      case_prod_beta split: sum.splits)

theorem handler_failure_sets_error_keeps_session_witness:
  "error (fst (snd (login (example_provider None) [] ''pw'' signed_in
       (example_browser Map.empty)))) =
     Some \<lparr>code = INVALID_CREDENTIALS, errorMessage = ''Email and password are required'',
            details = None\<rparr> \<and>
   user (fst (snd (login (example_provider None) [] ''pw'' signed_in
       (example_browser Map.empty)))) = user signed_in \<and>
   session (fst (snd (login (example_provider None) [] ''pw'' signed_in
       (example_browser Map.empty)))) = session signed_in \<and>
   error (fst (snd (signUp_handler (example_provider None) ''a@b.co'' ''Passw0rdX'' ''Ann''
       signed_in (example_browser Map.empty)))) =
     Some \<lparr>code = USER_ALREADY_EXISTS, errorMessage = ''This email is already registered'',
            details = None\<rparr> \<and>
   user (fst (snd (signUp_handler (example_provider None) ''a@b.co'' ''Passw0rdX'' ''Ann''
       signed_in (example_browser Map.empty)))) = user signed_in \<and>
   session (fst (snd (signUp_handler (example_provider None) ''a@b.co'' ''Passw0rdX'' ''Ann''
       signed_in (example_browser Map.empty)))) = session signed_in \<and>
   error (fst (snd (logoutHandler (example_provider (Some (js_Error ''Network request failed'')))
       signed_in (example_browser Map.empty)))) =
     Some \<lparr>code = NETWORK_ERROR, errorMessage = ''Network error. Please check your connection.'',
            details = None\<rparr> \<and>
   user (fst (snd (logoutHandler (example_provider (Some (js_Error ''Network request failed'')))
       signed_in (example_browser Map.empty)))) = user signed_in \<and>
   session (fst (snd (logoutHandler (example_provider (Some (js_Error ''Network request failed'')))
       signed_in (example_browser Map.empty)))) = session signed_in \<and>
   error (fst (snd (resetPassword (example_provider None) ''a@b.co'' signed_in
       (example_browser Map.empty)))) =
     Some \<lparr>code = NETWORK_ERROR, errorMessage = ''Network error. Please check your connection.'',
            details = None\<rparr> \<and>
   user (fst (snd (resetPassword (example_provider None) ''a@b.co'' signed_in
       (example_browser Map.empty)))) = user signed_in \<and>
   session (fst (snd (resetPassword (example_provider None) ''a@b.co'' signed_in
       (example_browser Map.empty)))) = session signed_in"
proof -
  let ?w = "example_browser Map.empty"
  let ?P = "example_provider None"
  let ?Q = "example_provider (Some (js_Error ''Network request failed''))"
  let ?net = "\<lparr>code = NETWORK_ERROR,
      errorMessage = ''Network error. Please check your connection.'', details = None\<rparr>"
  have a: "fst (login ?P [] ''pw'' signed_in ?w) =
      Inl \<lparr>code = INVALID_CREDENTIALS, errorMessage = ''Email and password are required'',
            details = None\<rparr>"
    by (simp add: login_def loginWithEmail_def)
  have pw: "valid (validatePassword ''Passw0rdX'')"
    by (simp add: validatePassword_def rx_test_range)
  have nm: "trim ''Ann'' = ''Ann''"
    by (simp add: trim_def is_space_def)
  have b: "fst (signUp_handler ?P ''a@b.co'' ''Passw0rdX'' ''Ann'' signed_in ?w) =
      Inl \<lparr>code = USER_ALREADY_EXISTS, errorMessage = ''This email is already registered'',
            details = None\<rparr>"
    by (simp add: signUp_handler_def signUpWithEmail_def validateEmail_example pw nm
        example_provider_def mapSupabaseError_registered)
  have c: "fst (logoutHandler ?Q signed_in ?w) = Inl ?net"
    by (simp add: logoutHandler_def logout_def example_provider_def mapSupabaseError_network)
  have d: "fst (resetPassword ?P ''a@b.co'' signed_in ?w) = Inl ?net"
    by (simp add: resetPassword_def requestPasswordReset_def validateEmail_example
        example_provider_def mapSupabaseError_network)
  from a b c d show ?thesis
    using handler_failure_sets_error_keeps_session
        [of ?P "[]" "''pw''" signed_in ?w _ "''Ann''"]
      handler_failure_sets_error_keeps_session
        [of ?P "''a@b.co''" "''Passw0rdX''" signed_in ?w _ "''Ann''"]
      handler_failure_sets_error_keeps_session
        [of ?Q "''a@b.co''" "''Passw0rdX''" signed_in ?w ?net "''Ann''"]
      handler_failure_sets_error_keeps_session
        [of ?P "''a@b.co''" "''Passw0rdX''" signed_in ?w ?net "''Ann''"]
    by simp
qed

text \<open>
  C1, as the code has it.  After a successful \<open>login\<close> both User and Session are set.
  A following \<open>logout\<close> whose provider sign-out succeeds returns normally and leaves User
  and Session null.  A following \<open>logout\<close> whose provider sign-out errors fails with the
  mapped error, which is also the shared error state, and leaves User and Session as the
  login set them.
\<close>

theorem logout_after_login:
  assumes "login P email password st w = (Inr (), st1, w1)"
  shows "user st1 \<noteq> None \<and> session st1 \<noteq> None \<and>
     (signOut P' = None \<longrightarrow>
        fst (logoutHandler P' st1 w1) = Inr () \<and>
        user (fst (snd (logoutHandler P' st1 w1))) = None \<and>
        session (fst (snd (logoutHandler P' st1 w1))) = None) \<and>
     (\<forall>err. signOut P' = Some err \<longrightarrow>
        fst (logoutHandler P' st1 w1) = Inl (mapSupabaseError err) \<and>
        error (fst (snd (logoutHandler P' st1 w1))) = Some (mapSupabaseError err) \<and>
        user (fst (snd (logoutHandler P' st1 w1))) = user st1 \<and>
        session (fst (snd (logoutHandler P' st1 w1))) = session st1)"
proof -
  from assms have "user st1 \<noteq> None \<and> session st1 \<noteq> None"
    by (auto simp: login_def Let_def case_prod_beta split: sum.splits)
  moreover have "signOut P' = None \<longrightarrow>
        fst (logoutHandler P' st1 w1) = Inr () \<and>
        user (fst (snd (logoutHandler P' st1 w1))) = None \<and>
        session (fst (snd (logoutHandler P' st1 w1))) = None"
    by (auto simp: logoutHandler_def logout_def Let_def split: option.splits)
  moreover have "\<forall>err. signOut P' = Some err \<longrightarrow>
        fst (logoutHandler P' st1 w1) = Inl (mapSupabaseError err) \<and>
        error (fst (snd (logoutHandler P' st1 w1))) = Some (mapSupabaseError err) \<and>
        user (fst (snd (logoutHandler P' st1 w1))) = user st1 \<and>
        session (fst (snd (logoutHandler P' st1 w1))) = session st1"
    by (auto simp: logoutHandler_def logout_def Let_def split: option.splits)
  ultimately show ?thesis by blast
qed

theorem logout_after_login_witness:
  "login (example_provider None) ''a@b.co'' ''pw'' signed_out (example_browser Map.empty) =
     (Inr (), signed_in,
      \<lparr>rl = \<lparr>store = Map.empty, clock = (\<lambda>n. 2000 + (Suc (Suc n)) mod 7)\<rparr>,
       calls = [SignInWithPassword ''a@b.co'' ''pw''],
       window_origin = Some ''https://camply.test'', sessionStorage = Map.empty,
       localStorage = Map.empty\<rparr>) \<and>
   fst (logoutHandler (example_provider None) signed_in
      \<lparr>rl = \<lparr>store = Map.empty, clock = (\<lambda>n. 2000 + (Suc (Suc n)) mod 7)\<rparr>,
       calls = [SignInWithPassword ''a@b.co'' ''pw''],
       window_origin = Some ''https://camply.test'', sessionStorage = Map.empty,
       localStorage = Map.empty\<rparr>) = Inr () \<and>
   user (fst (snd (logoutHandler (example_provider None) signed_in
      \<lparr>rl = \<lparr>store = Map.empty, clock = (\<lambda>n. 2000 + (Suc (Suc n)) mod 7)\<rparr>,
       calls = [SignInWithPassword ''a@b.co'' ''pw''],
       window_origin = Some ''https://camply.test'', sessionStorage = Map.empty,
       localStorage = Map.empty\<rparr>))) = None \<and>
   session (fst (snd (logoutHandler (example_provider None) signed_in
      \<lparr>rl = \<lparr>store = Map.empty, clock = (\<lambda>n. 2000 + (Suc (Suc n)) mod 7)\<rparr>,
       calls = [SignInWithPassword ''a@b.co'' ''pw''],
       window_origin = Some ''https://camply.test'', sessionStorage = Map.empty,
       localStorage = Map.empty\<rparr>))) = None \<and>
   user (fst (snd (logoutHandler (example_provider (Some (js_Error ''Network request failed'')))
      signed_in
      \<lparr>rl = \<lparr>store = Map.empty, clock = (\<lambda>n. 2000 + (Suc (Suc n)) mod 7)\<rparr>,
       calls = [SignInWithPassword ''a@b.co'' ''pw''],
       window_origin = Some ''https://camply.test'', sessionStorage = Map.empty,
       localStorage = Map.empty\<rparr>))) = user signed_in"
proof -
  have so: "signOut (example_provider None) = None"
    "signOut (example_provider (Some (js_Error ''Network request failed''))) =
       Some (js_Error ''Network request failed'')"
    by (simp_all add: example_provider_def)
  show ?thesis
    using logout_after_login [OF login_example [of None], of "example_provider None"]
      logout_after_login [OF login_example [of None],
        of "example_provider (Some (js_Error ''Network request failed''))"]
      login_example [of None] so
    by simp
qed

text \<open>
  C1 as stated fails: the login succeeds, the provider's sign-out then answers with an
  error, and \<open>logout\<close> leaves the user and the session of the login in place (it does not
  return normally either).
\<close>

theorem logout_provider_error_counterexample:
  "fst (login (example_provider (Some (js_Error ''Network request failed''))) ''a@b.co'' ''pw''
      signed_out (example_browser Map.empty)) = Inr () \<and>
   fst (logoutHandler (example_provider (Some (js_Error ''Network request failed'')))
      (fst (snd (login (example_provider (Some (js_Error ''Network request failed'')))
         ''a@b.co'' ''pw'' signed_out (example_browser Map.empty))))
      (snd (snd (login (example_provider (Some (js_Error ''Network request failed'')))
         ''a@b.co'' ''pw'' signed_out (example_browser Map.empty))))) =
     Inl \<lparr>code = NETWORK_ERROR, errorMessage = ''Network error. Please check your connection.'',
          details = None\<rparr> \<and>
   user (fst (snd (logoutHandler (example_provider (Some (js_Error ''Network request failed'')))
      (fst (snd (login (example_provider (Some (js_Error ''Network request failed'')))
         ''a@b.co'' ''pw'' signed_out (example_browser Map.empty))))
      (snd (snd (login (example_provider (Some (js_Error ''Network request failed'')))
         ''a@b.co'' ''pw'' signed_out (example_browser Map.empty))))))) =
     Some (mapSupabaseUserToUser example_user) \<and>
   session (fst (snd (logoutHandler (example_provider (Some (js_Error ''Network request failed'')))
      (fst (snd (login (example_provider (Some (js_Error ''Network request failed'')))
         ''a@b.co'' ''pw'' signed_out (example_browser Map.empty))))
      (snd (snd (login (example_provider (Some (js_Error ''Network request failed'')))
         ''a@b.co'' ''pw'' signed_out (example_browser Map.empty))))))) \<noteq> None"
  unfolding login_example
  by (simp add: logoutHandler_def logout_def mapSupabaseError_network
      example_provider_def signed_in_def)

section \<open>Properties of the onboarding service\<close>

lemma hasCompletedOnboarding_flag:
  "hasCompletedOnboarding f u tbl = (f = NoFault \<and> flag_set tbl u)"
  by (auto simp: hasCompletedOnboarding_def select_single_def flag_set_def
      split: fault.splits option.splits)

lemma completeOnboarding_success:
  assumes "completeOnboarding f_read f_write now1 now2 userId data tbl = (res, tbl1)"
    and "success res"
  shows "\<exists>row. tbl1 userId = Some row \<and>
           col_id row = userId \<and>
           col_display_name row = Some (displayName data) \<and>
           col_bio row = Some (bio data) \<and>
           col_school row = Some (school data) \<and>
           col_program row = Some (program data) \<and>
           col_avatar_url row = Some (profilePicture data) \<and>
           col_onboarding_completed row = Some True \<and>
           col_updated_at row = Some now1"
  using assms
  by (auto simp: completeOnboarding_def getUserProfile_def select_single_def db_update_def
      db_insert_def apply_update_def Let_def
      split: option.splits fault.splits reply.splits prod.splits if_splits)

lemma completeOnboarding_flag:
  assumes "completeOnboarding f_read f_write now1 now2 userId data tbl = (res, tbl1)"
    and "flag_set tbl1 u"
  shows "flag_set tbl u \<or> (u = userId \<and> success res)"
  using assms
  by (auto simp: completeOnboarding_def getUserProfile_def select_single_def db_update_def
      db_insert_def apply_update_def Let_def flag_set_def
      split: option.splits fault.splits reply.splits prod.splits if_splits)

lemma run_calls_completed_mono:
  "set completed \<subseteq> set (snd (run_calls cs (tbl, completed)))"
proof (induction cs arbitrary: tbl completed)
  case Nil
  then show ?case by simp
next
  case (Cons c cs)
  obtain f_read f_write now1 now2 userId data
    where c: "c = CompleteOnboarding f_read f_write now1 now2 userId data"
    by (cases c)
  obtain res tbl1 where r: "completeOnboarding f_read f_write now1 now2 userId data tbl = (res, tbl1)"
    by (cases "completeOnboarding f_read f_write now1 now2 userId data tbl")
  show ?case
    using Cons.IH [where tbl = tbl1
        and completed = "if success res then completed @ [userId] else completed"]
    by (auto simp: c r)
qed

lemma run_calls_flag:
  assumes "flag_set (fst (run_calls cs (tbl, completed))) u"
  shows "flag_set tbl u \<or> u \<in> set (snd (run_calls cs (tbl, completed)))"
  using assms
proof (induction cs arbitrary: tbl completed)
  case Nil
  then show ?case by simp
next
  case (Cons c cs)
  obtain f_read f_write now1 now2 userId data
    where c: "c = CompleteOnboarding f_read f_write now1 now2 userId data"
    by (cases c)
  obtain res tbl1 where r: "completeOnboarding f_read f_write now1 now2 userId data tbl = (res, tbl1)"
    by (cases "completeOnboarding f_read f_write now1 now2 userId data tbl")
  let ?completed1 = "if success res then completed @ [userId] else completed"
  have run: "run_calls (c # cs) (tbl, completed) = run_calls cs (tbl1, ?completed1)"
    by (simp add: c r)
  from Cons.prems have "flag_set (fst (run_calls cs (tbl1, ?completed1))) u"
    by (simp add: run)
  from Cons.IH [OF this]
  consider "flag_set tbl1 u" | "u \<in> set (snd (run_calls cs (tbl1, ?completed1)))"
    by blast
  then show ?case
  proof cases
    case 1
    from completeOnboarding_flag [OF r 1]
    consider "flag_set tbl u" | "u = userId" "success res" by blast
    then show ?thesis
    proof cases
      case 1
      then show ?thesis by simp
    next
      case 2
      then have "u \<in> set ?completed1" by simp
      with run_calls_completed_mono [of ?completed1 cs tbl1]
      show ?thesis by (auto simp: run)
    qed
  next
    case 2
    then show ?thesis by (simp add: run)
  qed
qed

lemma completeOnboarding_created_at:
  assumes "completeOnboarding f_read f_write now1 now2 userId data tbl = (res, tbl1)"
    and "success res" and "tbl1 userId = Some row"
  shows "col_created_at row =
           (case tbl userId of None \<Rightarrow> Some now2 | Some old \<Rightarrow> col_created_at old)"
  using assms
  by (auto simp: completeOnboarding_def getUserProfile_def select_single_def db_update_def
      db_insert_def apply_update_def Let_def
      split: option.splits fault.splits reply.splits prod.splits if_splits)

lemma completeOnboarding_example:
  "completeOnboarding NoFault NoFault ''2024-05-01T10:00:00.000Z'' ''2024-05-01T10:00:00.001Z''
      ''u1'' example_profile Map.empty =
     (\<lparr>success = True, result_error = None\<rparr>,
      [''u1'' \<mapsto>
        \<lparr>col_id = ''u1'', col_display_name = Some ''Ann'', col_bio = Some ''CS student'',
         col_school = Some ''University of Cebu'', col_program = Some ''BSCS'',
         col_avatar_url = Some ''https://img.test/ann.png'',
         col_onboarding_completed = Some True,
         col_updated_at = Some ''2024-05-01T10:00:00.000Z'',
         col_created_at = Some ''2024-05-01T10:00:00.001Z''\<rparr>])"
  by (simp add: completeOnboarding_def getUserProfile_def select_single_def db_insert_def
      example_profile_def)

text \<open>
  C7, as the code has it.  For every user id and every onboarding record: when \<open>completeOnboarding\<close> returns
  \<open>success = true\<close>, a \<open>getUserProfile\<close> of the same id, served by the store, returns a
  row whose \<open>display_name\<close>, \<open>bio\<close>, \<open>school\<close>, \<open>program\<close> and \<open>avatar_url\<close> are the
  \<open>displayName\<close>, \<open>bio\<close>, \<open>school\<close>, \<open>program\<close> and \<open>profilePicture\<close> passed in, whose \<open>id\<close>
  is the user id and whose \<open>onboarding_completed\<close> is true; \<open>updated_at\<close> is the time of
  the call, and \<open>created_at\<close> the time of the call for a new row and the old value for
  an updated one.  These five are the members the source maps to columns; \<open>avatarType\<close>
  and \<open>gender\<close> of \<open>OnboardingData\<close> have no column and are not written.
\<close>

theorem completeOnboarding_getUserProfile_roundtrip:
  assumes "completeOnboarding f_read f_write now1 now2 userId data tbl = (res, tbl1)"
    and "success res"
  shows "\<exists>row. getUserProfile NoFault userId tbl1 = Some row \<and>
           col_id row = userId \<and>
           col_display_name row = Some (displayName data) \<and>
           col_bio row = Some (bio data) \<and>
           col_school row = Some (school data) \<and>
           col_program row = Some (program data) \<and>
           col_avatar_url row = Some (profilePicture data) \<and>
           col_onboarding_completed row = Some True \<and>
           col_updated_at row = Some now1 \<and>
           col_created_at row =
             (case tbl userId of None \<Rightarrow> Some now2 | Some old \<Rightarrow> col_created_at old)"
proof -
  from completeOnboarding_success [OF assms]
  obtain row where row: "tbl1 userId = Some row" "col_id row = userId"
    "col_display_name row = Some (displayName data)" "col_bio row = Some (bio data)"
    "col_school row = Some (school data)" "col_program row = Some (program data)"
    "col_avatar_url row = Some (profilePicture data)"
    "col_onboarding_completed row = Some True" "col_updated_at row = Some now1"
    by blast
  from row(1) have "getUserProfile NoFault userId tbl1 = Some row"
    by (simp add: getUserProfile_def select_single_def)
  with row completeOnboarding_created_at [OF assms row(1)] show ?thesis by blast
qed

theorem completeOnboarding_getUserProfile_roundtrip_witness:
  "success (fst (completeOnboarding NoFault NoFault ''2024-05-01T10:00:00.000Z''
      ''2024-05-01T10:00:00.001Z'' ''u1'' example_profile Map.empty)) \<and>
   (\<exists>row. getUserProfile NoFault ''u1''
        (snd (completeOnboarding NoFault NoFault ''2024-05-01T10:00:00.000Z''
           ''2024-05-01T10:00:00.001Z'' ''u1'' example_profile Map.empty)) = Some row \<and>
      col_display_name row = Some ''Ann'' \<and>
      col_bio row = Some ''CS student'' \<and>
      col_school row = Some ''University of Cebu'' \<and>
      col_program row = Some ''BSCS'' \<and>
      col_avatar_url row = Some ''https://img.test/ann.png'' \<and>
      col_onboarding_completed row = Some True)"
proof -
  have s: "success \<lparr>success = True, result_error = None\<rparr>" by simp
  note t = completeOnboarding_getUserProfile_roundtrip [OF completeOnboarding_example s]
  show ?thesis
    unfolding completeOnboarding_example using t by (auto simp: example_profile_def)
qed

lemma completeOnboarding_ignores_avatar:
  "completeOnboarding f_read f_write now1 now2 userId (data\<lparr>avatarType := a, gender := g\<rparr>) tbl =
   completeOnboarding f_read f_write now1 now2 userId data tbl"
  by (simp add: completeOnboarding_def)

text \<open>
  C7 as stated fails: the caller passes seven members, and the record read back carries
  five of them.  Two onboarding records that differ in \<open>avatarType\<close> and \<open>gender\<close> are both
  saved with success, and \<open>getUserProfile\<close> returns the same record for both, so the
  record does not hold the fields passed in and they cannot be read back from it.
\<close>

theorem completeOnboarding_drops_avatar_counterexample:
  "example_profile\<lparr>avatarType := AvatarFemale, gender := Some GenderFemale\<rparr> \<noteq> example_profile \<and>
   success (fst (completeOnboarding NoFault NoFault ''2024-05-01T10:00:00.000Z''
      ''2024-05-01T10:00:00.001Z'' ''u1''
      (example_profile\<lparr>avatarType := AvatarFemale, gender := Some GenderFemale\<rparr>) Map.empty)) \<and>
   success (fst (completeOnboarding NoFault NoFault ''2024-05-01T10:00:00.000Z''
      ''2024-05-01T10:00:00.001Z'' ''u1'' example_profile Map.empty)) \<and>
   getUserProfile NoFault ''u1''
     (snd (completeOnboarding NoFault NoFault ''2024-05-01T10:00:00.000Z''
        ''2024-05-01T10:00:00.001Z'' ''u1''
        (example_profile\<lparr>avatarType := AvatarFemale, gender := Some GenderFemale\<rparr>) Map.empty)) =
   getUserProfile NoFault ''u1''
     (snd (completeOnboarding NoFault NoFault ''2024-05-01T10:00:00.000Z''
        ''2024-05-01T10:00:00.001Z'' ''u1'' example_profile Map.empty)) \<and>
   getUserProfile NoFault ''u1''
     (snd (completeOnboarding NoFault NoFault ''2024-05-01T10:00:00.000Z''
        ''2024-05-01T10:00:00.001Z'' ''u1'' example_profile Map.empty)) =
     Some \<lparr>col_id = ''u1'', col_display_name = Some ''Ann'', col_bio = Some ''CS student'',
           col_school = Some ''University of Cebu'', col_program = Some ''BSCS'',
           col_avatar_url = Some ''https://img.test/ann.png'',
           col_onboarding_completed = Some True,
           col_updated_at = Some ''2024-05-01T10:00:00.000Z'',
           col_created_at = Some ''2024-05-01T10:00:00.001Z''\<rparr> \<and>
   \<not> (\<exists>recover. \<forall>data.
        recover (getUserProfile NoFault ''u1''
          (snd (completeOnboarding NoFault NoFault ''2024-05-01T10:00:00.000Z''
             ''2024-05-01T10:00:00.001Z'' ''u1'' data Map.empty))) = data)"
proof -
  let ?d2 = "example_profile\<lparr>avatarType := AvatarFemale, gender := Some GenderFemale\<rparr>"
  let ?run = "\<lambda>data. completeOnboarding NoFault NoFault ''2024-05-01T10:00:00.000Z''
      ''2024-05-01T10:00:00.001Z'' ''u1'' data Map.empty"
  have ne: "?d2 \<noteq> example_profile"
    by (simp add: example_profile_def)
  have same: "?run ?d2 = ?run example_profile"
    by (rule completeOnboarding_ignores_avatar)
  have no_recover: "\<not> (\<exists>recover. \<forall>data.
      recover (getUserProfile NoFault ''u1'' (snd (?run data))) = data)"
  proof
    assume "\<exists>recover. \<forall>data.
      recover (getUserProfile NoFault ''u1'' (snd (?run data))) = data"
    then obtain recover
      where r: "\<And>data. recover (getUserProfile NoFault ''u1'' (snd (?run data))) = data"
      by blast
    from r [of ?d2] r [of example_profile] same have "?d2 = example_profile" by simp
    with ne show False by contradiction
  qed
  have row: "getUserProfile NoFault ''u1'' (snd (?run example_profile)) =
     Some \<lparr>col_id = ''u1'', col_display_name = Some ''Ann'', col_bio = Some ''CS student'',
           col_school = Some ''University of Cebu'', col_program = Some ''BSCS'',
           col_avatar_url = Some ''https://img.test/ann.png'',
           col_onboarding_completed = Some True,
           col_updated_at = Some ''2024-05-01T10:00:00.000Z'',
           col_created_at = Some ''2024-05-01T10:00:00.001Z''\<rparr>"
    unfolding completeOnboarding_example
    by (simp add: getUserProfile_def select_single_def)
  have ok: "success (fst (?run example_profile))"
    unfolding completeOnboarding_example by simp
  from ne same no_recover row ok show ?thesis by simp
qed

text \<open>
  C8.  \<open>hasCompletedOnboarding\<close> returns false for a user id with no profile row.  Its
  answer is the persisted flag: it is true exactly when the read is served and the row
  of that id has \<open>onboarding_completed = true\<close>; no client-side value enters it.  From a
  table in which the flag of \<open>u\<close> is not set, and after any sequence of
  \<open>completeOnboarding\<close> calls (the writes this program makes to the table), it returns
  true for \<open>u\<close> only if one of these calls was for \<open>u\<close> and returned success; and after a
  call for \<open>u\<close> that returns success it does return true.
\<close>

theorem hasCompletedOnboarding_only_after_completion:
  "(tbl u = None \<longrightarrow> \<not> hasCompletedOnboarding f u tbl) \<and>
   hasCompletedOnboarding f u tbl = (f = NoFault \<and> flag_set tbl u) \<and>
   (\<not> flag_set tbl u \<and> hasCompletedOnboarding f u (fst (run_calls cs (tbl, []))) \<longrightarrow>
      u \<in> set (snd (run_calls cs (tbl, [])))) \<and>
   (success (fst (completeOnboarding f_read f_write now1 now2 u data tbl)) \<longrightarrow>
      hasCompletedOnboarding NoFault u
        (snd (completeOnboarding f_read f_write now1 now2 u data tbl)))"
proof -
  have a: "tbl u = None \<longrightarrow> \<not> hasCompletedOnboarding f u tbl"
    by (simp add: hasCompletedOnboarding_flag flag_set_def)
  have b: "\<not> flag_set tbl u \<and> hasCompletedOnboarding f u (fst (run_calls cs (tbl, []))) \<longrightarrow>
      u \<in> set (snd (run_calls cs (tbl, [])))"
    using run_calls_flag [of cs tbl "[]" u] by (auto simp: hasCompletedOnboarding_flag)
  have c: "success (fst (completeOnboarding f_read f_write now1 now2 u data tbl)) \<longrightarrow>
      hasCompletedOnboarding NoFault u
        (snd (completeOnboarding f_read f_write now1 now2 u data tbl))"
  proof
    assume s: "success (fst (completeOnboarding f_read f_write now1 now2 u data tbl))"
    obtain res tbl1 where r: "completeOnboarding f_read f_write now1 now2 u data tbl = (res, tbl1)"
      by (cases "completeOnboarding f_read f_write now1 now2 u data tbl")
    with s have "success res" by simp
    from completeOnboarding_success [OF r this]
    have "flag_set tbl1 u" by (auto simp: flag_set_def)
    then show "hasCompletedOnboarding NoFault u
        (snd (completeOnboarding f_read f_write now1 now2 u data tbl))"
      by (simp add: r hasCompletedOnboarding_flag)
  qed
  from a b c hasCompletedOnboarding_flag [of f u tbl] show ?thesis by blast
qed

theorem hasCompletedOnboarding_only_after_completion_witness:
  "\<not> hasCompletedOnboarding NoFault ''u1'' Map.empty \<and>
   hasCompletedOnboarding NoFault ''u1''
     (fst (run_calls [CompleteOnboarding NoFault NoFault ''2024-05-01T10:00:00.000Z''
        ''2024-05-01T10:00:00.001Z'' ''u1'' example_profile] (Map.empty, []))) \<and>
   ''u1'' \<in> set (snd (run_calls [CompleteOnboarding NoFault NoFault ''2024-05-01T10:00:00.000Z''
        ''2024-05-01T10:00:00.001Z'' ''u1'' example_profile] (Map.empty, []))) \<and>
   \<not> hasCompletedOnboarding NoFault ''u2''
     (fst (run_calls [CompleteOnboarding NoFault NoFault ''2024-05-01T10:00:00.000Z''
        ''2024-05-01T10:00:00.001Z'' ''u1'' example_profile] (Map.empty, [])))"
proof -
  let ?cs = "[CompleteOnboarding NoFault NoFault ''2024-05-01T10:00:00.000Z''
        ''2024-05-01T10:00:00.001Z'' ''u1'' example_profile]"
  have h: "hasCompletedOnboarding NoFault ''u1'' (fst (run_calls ?cs (Map.empty, [])))"
    by (simp add: completeOnboarding_example hasCompletedOnboarding_def select_single_def)
  have n: "\<not> flag_set Map.empty ''u1''" by (simp add: flag_set_def)
  have m: "\<not> hasCompletedOnboarding NoFault ''u2'' (fst (run_calls ?cs (Map.empty, [])))"
    by (simp add: completeOnboarding_example hasCompletedOnboarding_def select_single_def)
  from h n m
    hasCompletedOnboarding_only_after_completion
      [of Map.empty "''u1''" NoFault ?cs NoFault NoFault "''2024-05-01T10:00:00.000Z''"
        "''2024-05-01T10:00:00.001Z''" example_profile]
  show ?thesis by simp
qed

section \<open>Properties of listing creation\<close>

lemma upload_images_tables:
  "items (snd (upload_images env k imgs db)) = items db \<and>
   item_images (snd (upload_images env k imgs db)) = item_images db"
proof (induction imgs arbitrary: k db)
  case Nil
  then show ?case by simp
next
  case (Cons img imgs)
  show ?case
  proof (cases "upload_reply env k img")
    case (UploadError m)
    then show ?thesis by simp
  next
    case (Uploaded publicUrl)
    with Cons.IH [of "Suc k" "db\<lparr>objects := objects db @ [publicUrl]\<rparr>"]
    show ?thesis by (simp add: case_prod_beta split: sum.splits)
  qed
qed

lemma upload_images_tablesD:
  assumes "upload_images env k imgs db = (r, db1)"
  shows "items db1 = items db" and "item_images db1 = item_images db"
  using upload_images_tables [of env k imgs db] assms by simp_all

lemma on_throw_save_images:
  "on_throw ''Failed to save images'' =
     \<lparr>resp_status = 500, resp_body = ErrorBody ''Failed to save images''\<rparr>"
  by (simp add: on_throw_def json_error_def)

lemma POST_example:
  "POST (\<lambda>s. s) (example_backend True delete_fail) example_request empty_db =
     (\<lparr>resp_status = 500, resp_body = ErrorBody ''Failed to save images''\<rparr>,
      \<lparr>items =
         (if delete_fail then
            [7 \<mapsto> \<lparr>item_title = ''Calculator'', item_description = ''Scientific calculator'',
                    item_price = ''350'', item_condition = Str ''like_new'',
                    item_status = Str ''available'', item_user_id = ''u1'',
                    item_category_id = 3, item_school = ''University of Cebu''\<rparr>]
          else Map.empty),
       item_images = [], objects = [''https://cdn.test/calc.png'']\<rparr>,
      [ItemInsert (Some 7), ImagesInsert 7 False, ItemDelete 7 (\<not> delete_fail)])"
  by (simp add: POST_def example_backend_def example_request_def empty_db_def or_null_def
      lookup_or_self_def categoryNameMap_def conditionMap_def statusMap_def
      on_throw_save_images)

text \<open>
  C9, as the code has it.  A \<open>POST\<close> request whose item insert is served (with id
  \<open>itemId\<close>) and whose \<open>item_images\<close> insert is answered with an error: the handler then
  issues the delete of that item row, as its last write, and answers 500 with "Failed to
  save images"; no image row has been added.  When the delete is served, the \<open>items\<close>
  table is the one from before the request without a row of that id.  The answer of the
  delete is not looked at: when the delete fails, the item row stays.
\<close>

theorem POST_rolls_back_item:
  assumes "POST parseFloat env req db = (resp, db1, writes)"
    and "ItemInsert (Some itemId) \<in> set writes"
    and "ImagesInsert itemId False \<in> set writes"
  shows "resp = \<lparr>resp_status = 500, resp_body = ErrorBody ''Failed to save images''\<rparr> \<and>
         writes = [ItemInsert (Some itemId), ImagesInsert itemId False,
                   ItemDelete itemId (\<not> delete_fails env)] \<and>
         item_images db1 = item_images db \<and>
         (if delete_fails env then items db1 itemId \<noteq> None
          else items db1 = (items db)(itemId := None))"
  using assms
  by (auto simp: POST_def Let_def on_throw_save_images
      split: option.splits if_splits sum.splits prod.splits
      dest: upload_images_tablesD)

theorem POST_rolls_back_item_witness:
  "fst (POST (\<lambda>s. s) (example_backend True False) example_request empty_db) =
     \<lparr>resp_status = 500, resp_body = ErrorBody ''Failed to save images''\<rparr> \<and>
   snd (snd (POST (\<lambda>s. s) (example_backend True False) example_request empty_db)) =
     [ItemInsert (Some 7), ImagesInsert 7 False, ItemDelete 7 True] \<and>
   items (fst (snd (POST (\<lambda>s. s) (example_backend True False) example_request empty_db))) =
     Map.empty \<and>
   item_images (fst (snd (POST (\<lambda>s. s) (example_backend True False) example_request empty_db))) =
     []"
proof -
  have d: "\<not> delete_fails (example_backend True False)"
    by (simp add: example_backend_def)
  have e: "items empty_db = Map.empty" "item_images empty_db = []"
    by (simp_all add: empty_db_def)
  have m: "ItemInsert (Some 7) \<in> set [ItemInsert (Some 7), ImagesInsert 7 False, ItemDelete 7 True]"
    "ImagesInsert 7 False \<in> set [ItemInsert (Some 7), ImagesInsert 7 False, ItemDelete 7 True]"
    by simp_all
  note t = POST_rolls_back_item [OF POST_example [of False, simplified] m]
  show ?thesis
    using t d e by (simp add: POST_example)
qed

text \<open>
  C9 as stated fails: the item insert is served, the image insert and then the delete
  are answered with errors.  The request answers 500 and leaves the item row it inserted
  in the table, with no image row.
\<close>

theorem POST_failed_delete_counterexample:
  "resp_status (fst (POST (\<lambda>s. s) (example_backend True True) example_request empty_db)) = 500 \<and>
   snd (snd (POST (\<lambda>s. s) (example_backend True True) example_request empty_db)) =
     [ItemInsert (Some 7), ImagesInsert 7 False, ItemDelete 7 False] \<and>
   items empty_db 7 = None \<and>
   items (fst (snd (POST (\<lambda>s. s) (example_backend True True) example_request empty_db))) 7 =
     Some \<lparr>item_title = ''Calculator'', item_description = ''Scientific calculator'',
           item_price = ''350'', item_condition = Str ''like_new'',
           item_status = Str ''available'', item_user_id = ''u1'',
           item_category_id = 3, item_school = ''University of Cebu''\<rparr> \<and>
   filter (\<lambda>r. fst r = 7)
     (item_images (fst (snd (POST (\<lambda>s. s) (example_backend True True) example_request
        empty_db)))) = []"
  unfolding POST_example by (simp add: empty_db_def)

end
